theory Spec2Isabelle
  imports Complex_Main "HOL-Library.Sublist" "HOL-Library.Multiset"
begin

section \<open>Strings\<close>

text \<open>
  Python \<open>str\<close> values are byte strings (UTF-8) here.  The operations below are the ones the
  cleaning code calls: \<open>str.startswith\<close>, \<open>str.replace\<close>, \<open>str.strip\<close>,
  \<open>str.split\<close> (with \<open>maxsplit = 1\<close>, and on a single character) and \<open>str.join\<close>.
\<close>

definition startswith :: "string \<Rightarrow> string \<Rightarrow> bool" where
  "startswith s p = (take (length p) s = p)"

text \<open>\<open>s.replace(old, new)\<close>: every non-overlapping occurrence, leftmost first.\<close>

fun str_replace :: "string \<Rightarrow> string \<Rightarrow> string \<Rightarrow> string" where
  "str_replace old new [] = (if old = [] then new else [])"
| "str_replace old new (c # cs) =
     (if old = [] then new @ c # str_replace old new cs
      else if startswith (c # cs) old
        then new @ str_replace old new (drop (length old) (c # cs))
      else c # str_replace old new cs)"

text \<open>
  A string is the UTF-8 encoding of the Python string.  \<open>str.strip()\<close> removes the
  characters for which \<open>str.isspace()\<close> holds: the ten ASCII ones, U+0085, U+00A0,
  U+1680, U+2000 to U+200A, U+2028, U+2029, U+202F, U+205F and U+3000.
\<close>

definition whitespace :: "string list" where
  "whitespace =
     [[CHR 0x09], [CHR 0x0A], [CHR 0x0B], [CHR 0x0C], [CHR 0x0D],
      [CHR 0x1C], [CHR 0x1D], [CHR 0x1E], [CHR 0x1F], [CHR 0x20],
      [CHR 0xC2, CHR 0x85], [CHR 0xC2, CHR 0xA0], [CHR 0xE1, CHR 0x9A, CHR 0x80],
      [CHR 0xE2, CHR 0x80, CHR 0x80], [CHR 0xE2, CHR 0x80, CHR 0x81],
      [CHR 0xE2, CHR 0x80, CHR 0x82], [CHR 0xE2, CHR 0x80, CHR 0x83],
      [CHR 0xE2, CHR 0x80, CHR 0x84], [CHR 0xE2, CHR 0x80, CHR 0x85],
      [CHR 0xE2, CHR 0x80, CHR 0x86], [CHR 0xE2, CHR 0x80, CHR 0x87],
      [CHR 0xE2, CHR 0x80, CHR 0x88], [CHR 0xE2, CHR 0x80, CHR 0x89],
      [CHR 0xE2, CHR 0x80, CHR 0x8A], [CHR 0xE2, CHR 0x80, CHR 0xA8],
      [CHR 0xE2, CHR 0x80, CHR 0xA9], [CHR 0xE2, CHR 0x80, CHR 0xAF],
      [CHR 0xE2, CHR 0x81, CHR 0x9F], [CHR 0xE3, CHR 0x80, CHR 0x80]]"

text \<open>
  The length of the first of the given byte sequences that the string starts with, or 0
  when it starts with none of them.
\<close>

definition ws_prefix :: "string list \<Rightarrow> string \<Rightarrow> nat" where
  "ws_prefix E s = (case find (\<lambda>w. startswith s w) E of None \<Rightarrow> 0 | Some w \<Rightarrow> length w)"

fun lstrip_with :: "string list \<Rightarrow> string \<Rightarrow> string" where
  "lstrip_with E [] = []"
| "lstrip_with E (c # cs) =
     (if ws_prefix E (c # cs) = 0 then c # cs
      else lstrip_with E (drop (ws_prefix E (c # cs)) (c # cs)))"

definition lstrip :: "string \<Rightarrow> string" where
  "lstrip s = lstrip_with whitespace s"

definition rstrip :: "string \<Rightarrow> string" where
  "rstrip s = rev (lstrip_with (map rev whitespace) (rev s))"

definition strip :: "string \<Rightarrow> string" where
  "strip s = rstrip (lstrip s)"

text \<open>
  \<open>s.split(sep, 1)\<close> for a non-empty separator: \<open>Some (a, b)\<close> when the result is
  \<open>[a, b]\<close>, \<open>None\<close> when the separator does not occur and the result is \<open>[s]\<close>.
\<close>

fun split_once :: "string \<Rightarrow> string \<Rightarrow> (string \<times> string) option" where
  "split_once sep [] = None"
| "split_once sep (c # cs) =
     (if startswith (c # cs) sep then Some ([], drop (length sep) (c # cs))
      else (case split_once sep cs of
              None \<Rightarrow> None
            | Some (a, b) \<Rightarrow> Some (c # a, b)))"

text \<open>\<open>s.split(sep)\<close> for a one-character separator.\<close>

fun split_char :: "char \<Rightarrow> string \<Rightarrow> string list" where
  "split_char sep [] = [[]]"
| "split_char sep (c # cs) =
     (if c = sep then [] # split_char sep cs
      else (case split_char sep cs of
              [] \<Rightarrow> [[c]]
            | w # ws \<Rightarrow> (c # w) # ws))"

fun join :: "string \<Rightarrow> string list \<Rightarrow> string" where
  "join sep [] = []"
| "join sep [x] = x"
| "join sep (x # y # ys) = x @ sep @ join sep (y # ys)"

text \<open>The decimal text of an integer, as \<open>str(n)\<close> and an f-string print it.\<close>

fun show_nat :: "nat \<Rightarrow> string" where
  "show_nat n =
     (if n < 10 then [''0123456789'' ! n]
      else show_nat (n div 10) @ [''0123456789'' ! (n mod 10)])"

declare show_nat.simps [simp del]

definition show_int :: "int \<Rightarrow> string" where
  "show_int i = (if i < 0 then CHR ''-'' # show_nat (nat (- i)) else show_nat (nat i))"

text \<open>The f-string \<open>f'{start_year}_{end_year}'\<close>.\<close>

definition season_label :: "int \<Rightarrow> int \<Rightarrow> string" where
  "season_label start_year end_year = show_int start_year @ ''_'' @ show_int end_year"


section \<open>Values and tables\<close>

text \<open>
  A double is a finite value, an infinity or NaN.  Finite values are exact rationals:
  rounding and the sign of zero are not part of the model.
\<close>

datatype float64 = Fin rat | PosInf | NegInf | NaN

datatype number = PyInt int | PyFloat float64

text \<open>A cell of a data frame: text, a number, \<open>None\<close> or \<open>pd.NA\<close>.\<close>

datatype cell = StrV string | NumV number | NoneV | NAV

text \<open>
  Two functions of the libraries are parameters of the model: the text \<open>str\<close> gives a
  finite float, and the number \<open>pd.to_numeric\<close> reads from one string (\<open>None\<close> when the
  string is not a number).
\<close>

record lib =
  float_repr :: "rat \<Rightarrow> string"
  parse_number :: "string \<Rightarrow> number option"

fun float_str :: "lib \<Rightarrow> float64 \<Rightarrow> string" where
  "float_str L (Fin q) = float_repr L q"
| "float_str L PosInf = ''inf''"
| "float_str L NegInf = ''-inf''"
| "float_str L NaN = ''nan''"

text \<open>The text form of a cell, as \<open>astype(str)\<close> produces it.\<close>

fun py_str :: "lib \<Rightarrow> cell \<Rightarrow> string" where
  "py_str L (StrV s) = s"
| "py_str L (NumV (PyInt i)) = show_int i"
| "py_str L (NumV (PyFloat f)) = float_str L f"
| "py_str L NoneV = ''None''"
| "py_str L NAV = ''<NA>''"

fun is_int :: "number \<Rightarrow> bool" where
  "is_int (PyInt i) = True"
| "is_int (PyFloat f) = False"

fun as_float :: "number \<Rightarrow> float64" where
  "as_float (PyInt i) = Fin (of_int i)"
| "as_float (PyFloat f) = f"

fun is_num :: "cell \<Rightarrow> bool" where
  "is_num (NumV n) = True"
| "is_num c = False"

definition nan :: cell where
  "nan = NumV (PyFloat NaN)"

text \<open>
  A data frame is its column labels (which may repeat) and its rows, each row holding one
  cell per label.
\<close>

record table =
  columns :: "string list"
  rows :: "cell list list"

datatype error = KeyError string | NotASeries string | AttributeError | ValueError
  | IndexError | TypeError

definition wf_table :: "table \<Rightarrow> bool" where
  "wf_table t = (distinct (columns t) \<and> list_all (\<lambda>r. length r = length (columns t)) (rows t))"

text \<open>\<open>df.empty\<close>: one of the two axes has length zero.\<close>

definition df_empty :: "table \<Rightarrow> bool" where
  "df_empty t = (rows t = [] \<or> columns t = [])"

definition col_positions :: "table \<Rightarrow> string \<Rightarrow> nat list" where
  "col_positions t c = filter (\<lambda>i. columns t ! i = c) [0..<length (columns t)]"

text \<open>
  \<open>df[c]\<close> where a Series is needed: a missing label raises \<open>KeyError\<close>; a label that
  selects several columns gives a frame, and the Series operation applied to it raises.
\<close>

definition get_series :: "table \<Rightarrow> string \<Rightarrow> error + cell list" where
  "get_series t c =
     (case col_positions t c of
        [] \<Rightarrow> Inl (KeyError c)
      | [i] \<Rightarrow> Inr (map (\<lambda>r. r ! i) (rows t))
      | i # j # js \<Rightarrow> Inl (NotASeries c))"

text \<open>
  \<open>df[c] = values\<close>: an existing label is overwritten in place (every column carrying it),
  a new label is appended as the last column.
\<close>

definition set_column :: "table \<Rightarrow> string \<Rightarrow> cell list \<Rightarrow> table" where
  "set_column t c vs =
     (if c \<in> set (columns t)
      then t\<lparr>rows := map2 (\<lambda>r v. map2 (\<lambda>n x. if n = c then v else x) (columns t) r) (rows t) vs\<rparr>
      else t\<lparr>columns := columns t @ [c], rows := map2 (\<lambda>r v. r @ [v]) (rows t) vs\<rparr>)"

definition set_scalar :: "table \<Rightarrow> string \<Rightarrow> cell \<Rightarrow> table" where
  "set_scalar t c v = set_column t c (replicate (length (rows t)) v)"


section \<open>Column and value normaliser (data\_utils.py)\<close>

definition remove_string_parts :: "lib \<Rightarrow> table \<Rightarrow> string \<Rightarrow> string \<Rightarrow> error + table" where
  "remove_string_parts L df column substring =
     (case get_series df column of
        Inl e \<Rightarrow> Inl e
      | Inr s \<Rightarrow> Inr (set_column df column
                        (map (\<lambda>v. StrV (str_replace substring [] (py_str L v))) s)))"

text \<open>\<open>df.rename(columns=columns_map)\<close>: a label that is a key is replaced by its value.\<close>

definition rename_label :: "(string \<rightharpoonup> string) \<Rightarrow> string \<Rightarrow> string" where
  "rename_label columns_map c = (case columns_map c of None \<Rightarrow> c | Some n \<Rightarrow> n)"

definition convert_column_names :: "table \<Rightarrow> (string \<rightharpoonup> string) \<Rightarrow> table" where
  "convert_column_names df columns_map = df\<lparr>columns := map (rename_label columns_map) (columns df)\<rparr>"

text \<open>
  \<open>df[columns].astype(str).agg("_".join, axis=1)\<close>: the list selection raises \<open>KeyError\<close>
  for a label that is not in the frame; otherwise the text forms of the selected cells of
  each row are joined.
\<close>

definition row_id :: "lib \<Rightarrow> table \<Rightarrow> string list \<Rightarrow> cell list \<Rightarrow> cell" where
  "row_id L df cols r =
     StrV (join ''_'' (map (\<lambda>i. py_str L (r ! i)) (concat (map (col_positions df) cols))))"

definition create_unique_id :: "lib \<Rightarrow> table \<Rightarrow> string list \<Rightarrow> string \<Rightarrow> error + table" where
  "create_unique_id L df cols new_column =
     (case filter (\<lambda>c. c \<notin> set (columns df)) cols of
        c # cs \<Rightarrow> Inl (KeyError c)
      | [] \<Rightarrow> Inr (set_column df new_column (map (row_id L df cols) (rows df))))"

text \<open>
  \<open>pd.to_numeric(series, errors="coerce")\<close> on a column of strings: a string that is not
  a number becomes NaN, and the column is a float column unless every entry is an integer.
\<close>

definition coerce :: "number option \<Rightarrow> number" where
  "coerce r = (case r of None \<Rightarrow> PyFloat NaN | Some n \<Rightarrow> n)"

definition to_numeric :: "lib \<Rightarrow> string list \<Rightarrow> cell list" where
  "to_numeric L xs =
     (let ns = map (\<lambda>s. coerce (parse_number L s)) xs
      in if list_all is_int ns then map NumV ns
         else map (\<lambda>n. NumV (PyFloat (as_float n))) ns)"

definition clean_number_text :: "lib \<Rightarrow> cell \<Rightarrow> string" where
  "clean_number_text L v = strip (str_replace '','' [] (py_str L v))"

fun convert_to_numeric :: "lib \<Rightarrow> table \<Rightarrow> string list \<Rightarrow> error + table" where
  "convert_to_numeric L df [] = Inr df"
| "convert_to_numeric L df (col # cols) =
     (case get_series df col of
        Inl e \<Rightarrow> Inl e
      | Inr s \<Rightarrow> convert_to_numeric L
                  (set_column df col (to_numeric L (map (clean_number_text L) s))) cols)"


section \<open>Configuration (wsl\_config.py)\<close>

definition SEASON_COL_MAP :: "string \<rightharpoonup> string" where
  "SEASON_COL_MAP = map_of
     [(''Rk'', ''Rank''), (''Squad'', ''Club''), (''MP'', ''Matches''), (''W'', ''Wins''),
      (''D'', ''Draws''), (''L'', ''Losses''), (''GF'', ''Goals_For''),
      (''GA'', ''Goals_Against''), (''GD'', ''Goal_Difference''), (''Pts'', ''Points''),
      (''xG'', ''Expected_Goals''), (''xGA'', ''Expected_Goals_Allowed''),
      (''xGD'', ''Expected_Goals_Difference''),
      (''xGD/90'', ''Expected_Goals_Difference_Per_90_Mins''),
      (''Pts/MP'', ''Points_Per_Match''), (''Attendance'', ''Attendance''),
      (''Top Team Scorer'', ''Top_Scorer''), (''Goalkeeper'', ''Goalkeeper'')]"

definition NATIONALITY_COL_MAP :: "string \<rightharpoonup> string" where
  "NATIONALITY_COL_MAP = map_of
     [(''Rk'', ''Rank''), (''Nation'', ''Nationality''), (''# Players'', ''Num_Players''),
      (''Min'', ''Minutes_Played''), (''List'', ''List_of_Players'')]"

text \<open>
  The list literal of the source has no comma between \<open>'Belgium'\<close> and \<open>'Norway'\<close>:
  Python joins the two adjacent literals into the one entry \<open>'BelgiumNorway'\<close>.
\<close>

definition EURO_COUNTRIES :: "string list" where
  "EURO_COUNTRIES =
     [''England'', ''Wales'', ''Scotland'', ''Republic_of_Ireland'', ''Netherlands'',
      ''Germany'', ''Sweden'', ''Northern_Ireland'', ''BelgiumNorway'', ''Denmark'',
      ''Switzerland'', ''Austria'', ''Finland'', ''France'', ''Iceland'', ''Portugal'',
      ''Poland'', ''Spain'', ''Czech_Republic'', ''Greece'', ''Italy'', ''Russia'',
      ''Slovenia'', ''Serbia'', ''Hungary'']"


section \<open>League-specific cleaning (wsl\_utils.py)\<close>

text \<open>
  \<open>nationality_group\<close> is applied to the rows of the cleaned nationality table, where
  \<open>Nationality\<close> is text or missing and \<open>euro_flag\<close> is an integer.
\<close>

record nat_row =
  Nationality :: "string option"
  euro_flag :: int

definition nationality_group :: "nat_row \<Rightarrow> string" where
  "nationality_group row =
     (if Nationality row = Some ''England'' then ''English''
      else if euro_flag row = 1 then ''European (excl. Eng)''
      else ''Non-European'')"

fun cell_text :: "cell \<Rightarrow> string option" where
  "cell_text (StrV s) = Some s"
| "cell_text c = None"

text \<open>Printed lines are collected in a log next to the result.\<close>

type_synonym 'a logged = "string list \<times> (error + 'a)"

definition skip_notice :: "int \<Rightarrow> int \<Rightarrow> string" where
  "skip_notice start_year end_year =
     ''Skipped cleaning for '' @ season_label start_year end_year @ '' (empty or missing)''"

text \<open>\<open>df[c].str.replace(old, new, regex=False)\<close> on one cell: missing stays missing.\<close>

fun str_replace_cell :: "string \<Rightarrow> string \<Rightarrow> cell \<Rightarrow> cell" where
  "str_replace_cell old new (StrV s) = StrV (str_replace old new s)"
| "str_replace_cell old new c = nan"

text \<open>
  \<open>df['Top_Scorer'].str.split(' - ', n=1, expand=True)\<close>, one row: the name part and,
  when there is one, the goals part.
\<close>

fun top_scorer_parts :: "cell \<Rightarrow> (cell \<times> cell option)" where
  "top_scorer_parts (StrV s) =
     (case split_once '' - '' s of
        None \<Rightarrow> (StrV s, None)
      | Some (a, b) \<Rightarrow> (StrV a, Some (StrV b)))"
| "top_scorer_parts c = (nan, None)"

text \<open>
  Column 1 of the expanded frame, when the frame has one: a row that was split in one
  part is padded with \<open>None\<close>, a row that was not text is NaN.
\<close>

fun goals_part :: "cell \<Rightarrow> cell" where
  "goals_part (StrV s) =
     (case split_once '' - '' s of None \<Rightarrow> NoneV | Some (a, b) \<Rightarrow> StrV b)"
| "goals_part c = nan"

text \<open>The \<open>lambda\<close> that normalises the names of the top scorers.\<close>

fun normalise_names :: "cell \<Rightarrow> cell" where
  "normalise_names (StrV s) =
     StrV (join '', '' (map (\<lambda>n. str_replace '' '' ''_'' (strip n)) (split_char CHR '','' s)))"
| "normalise_names c = c"

definition top_scorer_step :: "lib \<Rightarrow> table \<Rightarrow> error + table" where
  "top_scorer_step L df =
     (case get_series df ''Top_Scorer'' of
        Inl e \<Rightarrow> Inl e
      | Inr ts \<Rightarrow>
          if list_all is_num ts then Inl AttributeError
          else
            let names = map (\<lambda>c. fst (top_scorer_parts c)) ts;
                goals = (if list_ex (\<lambda>c. snd (top_scorer_parts c) \<noteq> None) ts
                         then map goals_part ts
                         else replicate (length ts) NAV);
                df1 = set_column df ''Top_Scorer_Name'' names;
                df2 = set_column df1 ''Top_Scorer_Goals'' goals
            in (case convert_to_numeric L df2 [''Top_Scorer_Goals''] of
                  Inl e \<Rightarrow> Inl e
                | Inr df3 \<Rightarrow>
                    (case get_series df3 ''Top_Scorer_Name'' of
                       Inl e \<Rightarrow> Inl e
                     | Inr ns \<Rightarrow> Inr (set_column df3 ''Top_Scorer_Name'' (map normalise_names ns)))))"

text \<open>Steps 1 to 4 of the season cleaning.\<close>

definition wsl_rename_step :: "lib \<Rightarrow> table \<Rightarrow> int \<Rightarrow> int \<Rightarrow> error + table" where
  "wsl_rename_step L df start_year end_year =
     (case remove_string_parts L df ''Squad'' ''Club Crest '' of
        Inl e \<Rightarrow> Inl e
      | Inr df1 \<Rightarrow>
          (case get_series df1 ''Squad'' of
             Inl e \<Rightarrow> Inl e
           | Inr sq \<Rightarrow>
               let df2 = set_column df1 ''Squad'' (map (str_replace_cell '' '' ''_'') sq);
                   df3 = set_scalar df2 ''season'' (StrV (season_label start_year end_year))
               in (case create_unique_id L df3 [''Squad'', ''season''] ''unique_ID'' of
                     Inl e \<Rightarrow> Inl e
                   | Inr df4 \<Rightarrow> Inr (convert_column_names df4 SEASON_COL_MAP))))"

definition process_wsl_data :: "lib \<Rightarrow> table option \<Rightarrow> int \<Rightarrow> int \<Rightarrow> table option logged" where
  "process_wsl_data L df start_year end_year =
     (case df of
        None \<Rightarrow> ([skip_notice start_year end_year], Inr None)
      | Some d \<Rightarrow>
          if df_empty d then ([skip_notice start_year end_year], Inr (Some d))
          else
            let season = season_label start_year end_year;
                log1 = [''Cleaning WSL for season '' @ season @ ''...'']
            in (case wsl_rename_step L d start_year end_year of
                  Inl e \<Rightarrow> (log1, Inl e)
                | Inr d4 \<Rightarrow>
                    let (log2, r5) =
                          (if ''Top_Scorer'' \<in> set (columns d4)
                           then (log1, top_scorer_step L d4)
                           else (log1 @ [''No '' @ [CHR 0x27] @ ''Top_Scorer'' @ [CHR 0x27]
                                           @ '' column found for '' @ season],
                                 Inr (set_scalar (set_scalar d4 ''Top_Scorer_Name'' NAV)
                                        ''Top_Scorer_Goals'' NAV)))
                    in (case r5 of
                          Inl e \<Rightarrow> (log2, Inl e)
                        | Inr d5 \<Rightarrow>
                            (case convert_to_numeric L d5 [''Attendance''] of
                               Inl e \<Rightarrow> (log2, Inl e)
                             | Inr d6 \<Rightarrow>
                                 (log2 @ [''Finished cleaning '' @ season @ '' data.''],
                                  Inr (Some d6))))))"

text \<open>
  \<open>.str.split(' ', n=1).str[1].str.replace(' ', '_')\<close> on one string: the text after
  the first space, or NaN when there is no space.
\<close>

definition clean_nation :: "string \<Rightarrow> cell" where
  "clean_nation s =
     (case split_once '' '' s of
        None \<Rightarrow> nan
      | Some (a, b) \<Rightarrow> StrV (str_replace '' '' ''_'' b))"

text \<open>The \<open>lambda\<close> \<open>1 if x in EURO_COUNTRIES else 0\<close>.\<close>

definition euro_flag_of :: "cell \<Rightarrow> int" where
  "euro_flag_of x =
     (case cell_text x of
        None \<Rightarrow> 0
      | Some s \<Rightarrow> if s \<in> set EURO_COUNTRIES then 1 else 0)"

definition group_of :: "cell \<Rightarrow> cell" where
  "group_of x = StrV (nationality_group \<lparr>Nationality = cell_text x, euro_flag = euro_flag_of x\<rparr>)"

text \<open>
  The steps of the nationality cleaning.  When no value of \<open>Nation\<close> contains a space,
  \<open>.str[1]\<close> gives a float column of NaN, and the \<open>.str\<close> accessor that follows raises
  \<open>AttributeError\<close>.
\<close>

definition nationality_steps :: "lib \<Rightarrow> table \<Rightarrow> int \<Rightarrow> int \<Rightarrow> error + table" where
  "nationality_steps L df start_year end_year =
     (case get_series df ''Nation'' of
        Inl e \<Rightarrow> Inl e
      | Inr nation \<Rightarrow>
          if nation \<noteq> [] \<and> list_all (\<lambda>v. split_once '' '' (py_str L v) = None) nation
          then Inl AttributeError
          else
            let df1 = set_column df ''Nation'' (map (\<lambda>v. clean_nation (py_str L v)) nation);
                df2 = convert_column_names df1 NATIONALITY_COL_MAP;
                df3 = set_scalar df2 ''season'' (StrV (season_label start_year end_year))
            in (case create_unique_id L df3 [''season'', ''Rank''] ''Season_Rank'' of
                  Inl e \<Rightarrow> Inl e
                | Inr df4 \<Rightarrow>
                    (case convert_to_numeric L df4 [''Num_Players'', ''Minutes_Played''] of
                       Inl e \<Rightarrow> Inl e
                     | Inr df5 \<Rightarrow>
                         (case get_series df5 ''Nationality'' of
                            Inl e \<Rightarrow> Inl e
                          | Inr nationality \<Rightarrow>
                              let df6 = set_column df5 ''euro_flag''
                                          (map (\<lambda>x. NumV (PyInt (euro_flag_of x))) nationality)
                              in Inr (set_column df6 ''group'' (map group_of nationality))))))"

definition process_nationality_data ::
  "lib \<Rightarrow> table option \<Rightarrow> int \<Rightarrow> int \<Rightarrow> table option logged" where
  "process_nationality_data L df start_year end_year =
     (case df of
        None \<Rightarrow> ([skip_notice start_year end_year], Inr None)
      | Some d \<Rightarrow>
          if df_empty d then ([skip_notice start_year end_year], Inr (Some d))
          else
            let season = season_label start_year end_year;
                log1 = [''Cleaning nationality season data for '' @ season @ ''...'']
            in (case nationality_steps L d start_year end_year of
                  Inl e \<Rightarrow> (log1, Inl e)
                | Inr d6 \<Rightarrow>
                    (log1 @ [''Finished cleaning nationality data for '' @ season @ ''.''],
                     Inr (Some d6))))"


section \<open>Float arithmetic\<close>

text \<open>
  The special values follow IEEE 754: a finite non-zero value divided by zero is an
  infinity, zero divided by zero is NaN, and every comparison with NaN is false.
\<close>

fun fneg :: "float64 \<Rightarrow> float64" where
  "fneg (Fin a) = Fin (- a)"
| "fneg PosInf = NegInf"
| "fneg NegInf = PosInf"
| "fneg NaN = NaN"

fun fadd :: "float64 \<Rightarrow> float64 \<Rightarrow> float64" where
  "fadd (Fin a) (Fin b) = Fin (a + b)"
| "fadd NaN y = NaN"
| "fadd x NaN = NaN"
| "fadd PosInf NegInf = NaN"
| "fadd NegInf PosInf = NaN"
| "fadd PosInf y = PosInf"
| "fadd x PosInf = PosInf"
| "fadd NegInf y = NegInf"
| "fadd x NegInf = NegInf"

definition fsub :: "float64 \<Rightarrow> float64 \<Rightarrow> float64" where
  "fsub x y = fadd x (fneg y)"

fun fmul :: "float64 \<Rightarrow> float64 \<Rightarrow> float64" where
  "fmul (Fin a) (Fin b) = Fin (a * b)"
| "fmul NaN y = NaN"
| "fmul x NaN = NaN"
| "fmul (Fin a) y = (if a = 0 then NaN else if 0 < a then y else fneg y)"
| "fmul x (Fin b) = (if b = 0 then NaN else if 0 < b then x else fneg x)"
| "fmul PosInf y = y"
| "fmul NegInf y = fneg y"

fun fdiv :: "float64 \<Rightarrow> float64 \<Rightarrow> float64" where
  "fdiv (Fin a) (Fin b) =
     (if b \<noteq> 0 then Fin (a / b)
      else if a = 0 then NaN
      else if 0 < a then PosInf else NegInf)"
| "fdiv NaN y = NaN"
| "fdiv x NaN = NaN"
| "fdiv (Fin a) y = Fin 0"
| "fdiv x (Fin b) = (if 0 \<le> b then x else fneg x)"
| "fdiv x y = NaN"

fun fabs :: "float64 \<Rightarrow> float64" where
  "fabs (Fin a) = Fin \<bar>a\<bar>"
| "fabs PosInf = PosInf"
| "fabs NegInf = PosInf"
| "fabs NaN = NaN"

fun fle :: "float64 \<Rightarrow> float64 \<Rightarrow> bool" where
  "fle (Fin a) (Fin b) = (a \<le> b)"
| "fle NaN y = False"
| "fle x NaN = False"
| "fle NegInf y = True"
| "fle x PosInf = True"
| "fle x y = False"

fun flt :: "float64 \<Rightarrow> float64 \<Rightarrow> bool" where
  "flt (Fin a) (Fin b) = (a < b)"
| "flt NaN y = False"
| "flt x NaN = False"
| "flt NegInf NegInf = False"
| "flt NegInf y = True"
| "flt PosInf y = False"
| "flt x PosInf = True"
| "flt x y = False"

definition fge :: "float64 \<Rightarrow> float64 \<Rightarrow> bool" where
  "fge x y = fle y x"

fun is_finite :: "float64 \<Rightarrow> bool" where
  "is_finite (Fin a) = True"
| "is_finite x = False"

fun cell_float :: "cell \<Rightarrow> float64" where
  "cell_float (NumV n) = as_float n"
| "cell_float c = NaN"

text \<open>
  The values of a numeric column.  Arithmetic and ordering on a column that holds
  anything but numbers raise \<open>TypeError\<close>.
\<close>

definition column_floats :: "cell list \<Rightarrow> error + float64 list" where
  "column_floats cs = (if list_all is_num cs then Inr (map cell_float cs) else Inl TypeError)"


section \<open>Forecast model (modelling.py)\<close>

text \<open>
  The model covers the parts of \<open>fit_wsl_linear_model\<close> that are written in the
  repository: the temporal split, the per-club extrapolation and the fraction metrics.
  Fitting the regression is the work of the library and is not modelled, nor is the
  rounding that \<open>enforce_types\<close> applies to the returned frames afterwards.
\<close>

subsection \<open>Train/test split\<close>

text \<open>\<open>df[mask]\<close> for a Boolean mask: the rows whose mask entry is true, in order.\<close>

definition select_rows :: "table \<Rightarrow> bool list \<Rightarrow> table" where
  "select_rows df keep = df\<lparr>rows := map snd (filter fst (zip keep (rows df)))\<rparr>"

definition train_test_split :: "table \<Rightarrow> int \<Rightarrow> error + table \<times> table" where
  "train_test_split model_df split_year =
     (case get_series model_df ''Season'' of
        Inl e \<Rightarrow> Inl e
      | Inr ss \<Rightarrow>
          (case column_floats ss of
             Inl e \<Rightarrow> Inl e
           | Inr fs \<Rightarrow>
               Inr (select_rows model_df (map (\<lambda>s. flt s (Fin (of_int split_year))) fs),
                    select_rows model_df (map (\<lambda>s. fge s (Fin (of_int split_year))) fs))))"

subsection \<open>Fraction metrics\<close>

text \<open>\<open>np.mean\<close> of a Boolean series: the share of true entries, NaN for no entries.\<close>

definition mean_bool :: "bool list \<Rightarrow> float64" where
  "mean_bool bs =
     (if bs = [] then NaN
      else Fin (of_nat (length (filter (\<lambda>b. b) bs)) / of_nat (length bs)))"

text \<open>\<open>np.abs((y_true - y_pred) / y_true)\<close>, one row.\<close>

definition rel_error :: "float64 \<Rightarrow> float64 \<Rightarrow> float64" where
  "rel_error y p = fabs (fdiv (fsub y p) y)"

definition pct_within_rel :: "rat \<Rightarrow> float64 list \<Rightarrow> float64 list \<Rightarrow> float64" where
  "pct_within_rel tol y_true y_pred =
     mean_bool (map2 (\<lambda>y p. fle (rel_error y p) (Fin tol)) y_true y_pred)"

definition pct_within_abs :: "rat \<Rightarrow> float64 list \<Rightarrow> float64 list \<Rightarrow> float64" where
  "pct_within_abs tol y_true y_pred =
     mean_bool (map2 (\<lambda>y p. fle (fabs (fsub y p)) (Fin tol)) y_true y_pred)"

text \<open>The four fraction entries of the dictionary \<open>compute_metrics\<close> returns.\<close>

record metrics =
  PctWithin10pct :: float64
  PctWithin15pct :: float64
  PctWithin500Attendees :: float64
  PctWithin1000Attendees :: float64

definition compute_metrics :: "float64 list \<Rightarrow> float64 list \<Rightarrow> metrics" where
  "compute_metrics y_true y_pred =
     \<lparr>PctWithin10pct = pct_within_rel (10 / 100) y_true y_pred,
      PctWithin15pct = pct_within_rel (15 / 100) y_true y_pred,
      PctWithin500Attendees = pct_within_abs 500 y_true y_pred,
      PctWithin1000Attendees = pct_within_abs 1000 y_true y_pred\<rparr>"

subsection \<open>Growth and median\<close>

text \<open>
  \<open>Series.pct_change()\<close> on a column without missing values: NaN for the first row, then
  \<open>x / previous - 1\<close>.
\<close>

fun pct_change :: "float64 list \<Rightarrow> float64 list" where
  "pct_change [] = []"
| "pct_change (x # xs) = NaN # map2 (\<lambda>prev cur. fsub (fdiv cur prev) (Fin 1)) (x # xs) xs"

fun finsort :: "float64 \<Rightarrow> float64 list \<Rightarrow> float64 list" where
  "finsort x [] = [x]"
| "finsort x (y # ys) = (if fle x y then x # y # ys else y # finsort x ys)"

definition fsort :: "float64 list \<Rightarrow> float64 list" where
  "fsort xs = foldr finsort xs []"

text \<open>
  \<open>Series.median()\<close>: NaN entries are skipped; the middle of the sorted rest, or the mean
  of the two middle entries.
\<close>

definition median_skipna :: "float64 list \<Rightarrow> float64" where
  "median_skipna xs =
     (let s = fsort (filter (\<lambda>x. x \<noteq> NaN) xs); n = length s
      in if n = 0 then NaN
         else if odd n then s ! (n div 2)
         else fdiv (fadd (s ! (n div 2 - 1)) (s ! (n div 2))) (Fin 2))"

subsection \<open>Per-club extrapolation\<close>

type_synonym dict_row = "string \<rightharpoonup> cell"

fun season_int :: "cell \<Rightarrow> int option" where
  "season_int (NumV (PyInt y)) = Some y"
| "season_int c = None"

text \<open>
  \<open>model_df['Season'].max()\<close>, used as a bound of \<open>range\<close>: only the maximum of a
  non-empty integer column is accepted there.
\<close>

definition last_year_of :: "table \<Rightarrow> error + int" where
  "last_year_of model_df =
     (case get_series model_df ''Season'' of
        Inl e \<Rightarrow> Inl e
      | Inr ss \<Rightarrow>
          (case those (map season_int ss) of
             None \<Rightarrow> Inl TypeError
           | Some [] \<Rightarrow> Inl TypeError
           | Some (y # ys) \<Rightarrow> Inr (fold max ys y)))"

definition future_years_list :: "int \<Rightarrow> int \<Rightarrow> int list" where
  "future_years_list last_year forecast_years =
     map (\<lambda>j. last_year + 1 + int j) [0..<nat forecast_years]"

definition club_cols_of :: "table \<Rightarrow> string list" where
  "club_cols_of model_df = filter (\<lambda>c. startswith c ''Club_'') (columns model_df)"

definition cell_is_one :: "cell \<Rightarrow> bool" where
  "cell_is_one c = (is_num c \<and> cell_float c = Fin 1)"

definition the_season :: "table \<Rightarrow> cell list \<Rightarrow> int" where
  "the_season df r =
     (case col_positions df ''Season'' of
        [] \<Rightarrow> 0
      | i # js \<Rightarrow> (case season_int (r ! i) of None \<Rightarrow> 0 | Some y \<Rightarrow> y))"

text \<open>\<open>model_df[model_df[f'Club_{club}'] == 1].sort_values('Season')\<close>.\<close>

definition club_history :: "table \<Rightarrow> string \<Rightarrow> error + table" where
  "club_history model_df club =
     (case get_series model_df (''Club_'' @ club) of
        Inl e \<Rightarrow> Inl e
      | Inr ds \<Rightarrow>
          Inr (model_df\<lparr>rows := sort_key (the_season model_df)
                               (rows (select_rows model_df (map cell_is_one ds)))\<rparr>))"

text \<open>\<open>row[c]\<close> for a row of the frame.\<close>

definition row_get :: "table \<Rightarrow> cell list \<Rightarrow> string \<Rightarrow> error + cell" where
  "row_get df r c =
     (case col_positions df c of
        [] \<Rightarrow> Inl (KeyError c)
      | [i] \<Rightarrow> Inr (r ! i)
      | i # j # js \<Rightarrow> Inl (NotASeries c))"

definition dummy_updates :: "string list \<Rightarrow> string \<Rightarrow> dict_row \<Rightarrow> dict_row" where
  "dummy_updates club_cols club row =
     fold (\<lambda>c r. r(c \<mapsto> NumV (PyInt (if c = ''Club_'' @ club then 1 else 0)))) club_cols row"

text \<open>The branch for a club with fewer than two rows.\<close>

definition last_capacity :: "table \<Rightarrow> error + cell" where
  "last_capacity cdf =
     (if ''Capacity'' \<in> set (columns cdf)
      then (case get_series cdf ''Capacity'' of
              Inl e \<Rightarrow> Inl e
            | Inr [] \<Rightarrow> Inl IndexError
            | Inr (c # cs) \<Rightarrow> Inr (last (c # cs)))
      else Inr nan)"

definition sparse_row ::
  "string list \<Rightarrow> string list \<Rightarrow> string \<Rightarrow> string \<Rightarrow> cell \<Rightarrow> int \<Rightarrow> dict_row" where
  "sparse_row club_cols feature_cols target_col club cap year =
     fold (\<lambda>c r. r(c \<mapsto> nan)) feature_cols
       ((dummy_updates club_cols club [''Season'' \<mapsto> NumV (PyInt year), ''Club'' \<mapsto> StrV club])
          (''Capacity'' \<mapsto> cap, ''Predicted_Attendance'' \<mapsto> nan, target_col \<mapsto> nan))"

definition sparse_rows ::
  "table \<Rightarrow> string list \<Rightarrow> string list \<Rightarrow> string \<Rightarrow> string \<Rightarrow> int list
     \<Rightarrow> error + dict_row list" where
  "sparse_rows cdf club_cols feature_cols target_col club years =
     (if years = [] then Inr []
      else (case last_capacity cdf of
              Inl e \<Rightarrow> Inl e
            | Inr cap \<Rightarrow> Inr (map (sparse_row club_cols feature_cols target_col club cap) years)))"

text \<open>The branch for a club with history: the features of the last row are carried.\<close>

fun carry_features :: "table \<Rightarrow> cell list \<Rightarrow> string list \<Rightarrow> dict_row \<Rightarrow> error + dict_row" where
  "carry_features cdf last_row [] row = Inr row"
| "carry_features cdf last_row (col # cols) row =
     (case row_get cdf last_row col of
        Inl e \<Rightarrow> Inl e
      | Inr v \<Rightarrow> carry_features cdf last_row cols (row(col \<mapsto> v)))"

fun growth_loop ::
  "table \<Rightarrow> cell list \<Rightarrow> string list \<Rightarrow> string list \<Rightarrow> string \<Rightarrow> string \<Rightarrow> float64
     \<Rightarrow> float64 \<Rightarrow> int list \<Rightarrow> error + dict_row list" where
  "growth_loop cdf last_row club_cols feature_cols target_col club median_growth last_att [] =
     Inr []"
| "growth_loop cdf last_row club_cols feature_cols target_col club median_growth last_att
     (year # years) =
     (let att = fmul last_att (fadd (Fin 1) median_growth)
      in case carry_features cdf last_row feature_cols [''Season'' \<mapsto> NumV (PyInt year)] of
           Inl e \<Rightarrow> Inl e
         | Inr row1 \<Rightarrow>
             (case row_get cdf last_row ''Capacity'' of
                Inl e \<Rightarrow> Inl e
              | Inr cap \<Rightarrow>
                  let row = (dummy_updates club_cols club row1)
                              (''Capacity'' \<mapsto> cap, ''Club'' \<mapsto> StrV club,
                               ''Predicted_Attendance'' \<mapsto> NumV (PyFloat att),
                               target_col \<mapsto> nan)
                  in (case growth_loop cdf last_row club_cols feature_cols target_col club
                             median_growth att years of
                        Inl e \<Rightarrow> Inl e
                      | Inr rest \<Rightarrow> Inr (row # rest))))"

definition growth_rows ::
  "table \<Rightarrow> string list \<Rightarrow> string list \<Rightarrow> string \<Rightarrow> string \<Rightarrow> int list
     \<Rightarrow> error + dict_row list" where
  "growth_rows cdf club_cols feature_cols target_col club years =
     (case get_series cdf target_col of
        Inl e \<Rightarrow> Inl e
      | Inr tv \<Rightarrow>
          (case column_floats tv of
             Inl e \<Rightarrow> Inl e
           | Inr xs \<Rightarrow>
               let cdf1 = set_column cdf ''growth'' (map (\<lambda>g. NumV (PyFloat g)) (pct_change xs))
               in (case get_series cdf1 ''growth'' of
                     Inl e \<Rightarrow> Inl e
                   | Inr gs \<Rightarrow>
                       (case get_series cdf1 target_col of
                          Inl e \<Rightarrow> Inl e
                        | Inr tv1 \<Rightarrow>
                            growth_loop cdf1 (last (rows cdf1)) club_cols feature_cols
                              target_col club (median_skipna (map cell_float gs))
                              (cell_float (last tv1)) years))))"

text \<open>The body of the loop over the clubs.\<close>

definition club_future_rows ::
  "table \<Rightarrow> string list \<Rightarrow> string list \<Rightarrow> string \<Rightarrow> int list \<Rightarrow> string
     \<Rightarrow> error + dict_row list" where
  "club_future_rows model_df club_cols feature_cols target_col years club =
     (case club_history model_df club of
        Inl e \<Rightarrow> Inl e
      | Inr cdf \<Rightarrow>
          if length (rows cdf) < 2
          then sparse_rows cdf club_cols feature_cols target_col club years
          else growth_rows cdf club_cols feature_cols target_col club years)"

fun clubs_loop ::
  "table \<Rightarrow> string list \<Rightarrow> string list \<Rightarrow> string \<Rightarrow> int list \<Rightarrow> string list
     \<Rightarrow> error + dict_row list" where
  "clubs_loop model_df club_cols feature_cols target_col years [] = Inr []"
| "clubs_loop model_df club_cols feature_cols target_col years (club # clubs) =
     (case club_future_rows model_df club_cols feature_cols target_col years club of
        Inl e \<Rightarrow> Inl e
      | Inr rs \<Rightarrow>
          (case clubs_loop model_df club_cols feature_cols target_col years clubs of
             Inl e \<Rightarrow> Inl e
           | Inr rest \<Rightarrow> Inr (rs @ rest)))"

text \<open>
  The block \<open>if forecast_years > 0\<close>: the list \<open>future_rows\<close>, or \<open>None\<close> when no
  forecast is asked for.
\<close>

definition future_rows ::
  "table \<Rightarrow> string list \<Rightarrow> string \<Rightarrow> int \<Rightarrow> error + dict_row list option" where
  "future_rows model_df feature_cols0 target_col forecast_years =
     (if 0 < forecast_years
      then
        (case last_year_of model_df of
           Inl e \<Rightarrow> Inl e
         | Inr last_year \<Rightarrow>
             let feature_cols = filter (\<lambda>c. c \<noteq> ''Season'') feature_cols0;
                 club_cols = club_cols_of model_df;
                 clubs = map (str_replace ''Club_'' []) club_cols
             in (case clubs_loop model_df club_cols feature_cols target_col
                        (future_years_list last_year forecast_years) clubs of
                   Inl e \<Rightarrow> Inl e
                 | Inr rs \<Rightarrow> Inr (Some rs)))
      else Inr None)"


section \<open>Reading a well-formed table\<close>

text \<open>
  In a table with distinct labels, \<open>position\<close> is the index of a label, \<open>cell_at\<close> the
  cell of a row under a label and \<open>column_of\<close> the column under it.
\<close>

fun position :: "'a list \<Rightarrow> 'a \<Rightarrow> nat" where
  "position [] c = 0"
| "position (x # xs) c = (if x = c then 0 else Suc (position xs c))"

definition cell_at :: "table \<Rightarrow> cell list \<Rightarrow> string \<Rightarrow> cell" where
  "cell_at df r c = r ! position (columns df) c"

definition column_of :: "table \<Rightarrow> string \<Rightarrow> cell list" where
  "column_of t c = map (\<lambda>r. r ! position (columns t) c) (rows t)"

definition season_of :: "table \<Rightarrow> cell list \<Rightarrow> float64" where
  "season_of df r = cell_float (r ! position (columns df) ''Season'')"


section \<open>An instance of the library functions\<close>

text \<open>
  The worked examples need the two library functions at concrete strings.  This instance
  reads the integer literals of the number grammar (an optional sign and decimal digits)
  and prints a float with an integral value below \<open>10^16\<close> as Python does.
\<close>

definition is_digit :: "char \<Rightarrow> bool" where
  "is_digit c = (c \<in> set ''0123456789'')"

definition digits_nat :: "string \<Rightarrow> nat" where
  "digits_nat s = foldl (\<lambda>n c. 10 * n + position ''0123456789'' c) 0 s"

definition parse_int_literal :: "string \<Rightarrow> number option" where
  "parse_int_literal s =
     (case s of
        [] \<Rightarrow> None
      | c # cs \<Rightarrow>
          if c = CHR ''-''
            then (if cs \<noteq> [] \<and> list_all is_digit cs
                  then Some (PyInt (- int (digits_nat cs))) else None)
          else if c = CHR ''+''
            then (if cs \<noteq> [] \<and> list_all is_digit cs
                  then Some (PyInt (int (digits_nat cs))) else None)
          else if list_all is_digit s then Some (PyInt (int (digits_nat s))) else None)"

definition repr_integral :: "rat \<Rightarrow> string" where
  "repr_integral q = show_int \<lfloor>q\<rfloor> @ ''.0''"

definition integer_lib :: lib where
  "integer_lib = \<lparr>float_repr = repr_integral, parse_number = parse_int_literal\<rparr>"


section \<open>The growth heuristic in exact arithmetic\<close>




section \<open>Lemmas on tables\<close>

lemma position_less: "c \<in> set xs \<Longrightarrow> position xs c < length xs"
  by (induction xs) auto

lemma nth_position: "c \<in> set xs \<Longrightarrow> xs ! position xs c = c"
  by (induction xs) auto

lemma position_nth: "distinct xs \<Longrightarrow> i < length xs \<Longrightarrow> position xs (xs ! i) = i"
  by (induction xs arbitrary: i) (auto simp: nth_Cons split: nat.splits)

lemma filter_eq_single: "distinct ys \<Longrightarrow> i \<in> set ys \<Longrightarrow> filter (\<lambda>j. j = i) ys = [i]"
  by (induction ys) (auto simp: filter_empty_conv)

lemma col_positions_distinct:
  assumes "distinct (columns t)" "c \<in> set (columns t)"
  shows "col_positions t c = [position (columns t) c]"
proof -
  let ?p = "position (columns t) c"
  have "filter (\<lambda>i. columns t ! i = c) [0..<length (columns t)]
        = filter (\<lambda>j. j = ?p) [0..<length (columns t)]"
    using assms by (intro filter_cong) (auto simp: nth_position position_nth)
  also have "\<dots> = [?p]"
    using assms by (intro filter_eq_single) (auto simp: position_less)
  finally show ?thesis by (simp add: col_positions_def)
qed

lemma col_positions_absent: "c \<notin> set (columns t) \<Longrightarrow> col_positions t c = []"
  by (auto simp: col_positions_def filter_empty_conv)

lemma col_positions_nonempty: "c \<in> set (columns t) \<Longrightarrow> col_positions t c \<noteq> []"
  by (auto simp: col_positions_def filter_empty_conv in_set_conv_nth)
lemma get_series_wf:
  "distinct (columns t) \<Longrightarrow> c \<in> set (columns t) \<Longrightarrow> get_series t c = Inr (column_of t c)"
  by (simp add: get_series_def col_positions_distinct column_of_def)

lemma get_series_absent: "c \<notin> set (columns t) \<Longrightarrow> get_series t c = Inl (KeyError c)"
  by (simp add: get_series_def col_positions_absent)

lemma columns_set_column:
  "columns (set_column t c vs) = (if c \<in> set (columns t) then columns t else columns t @ [c])"
  by (simp add: set_column_def)

lemma length_rows_set_column:
  "length vs = length (rows t) \<Longrightarrow> length (rows (set_column t c vs)) = length (rows t)"
  by (simp add: set_column_def)

lemma wf_set_column: "wf_table t \<Longrightarrow> wf_table (set_column t c vs)"
  by (auto simp: wf_table_def set_column_def list_all_iff dest!: set_zip_leftD)


lemma position_append_absent: "c \<notin> set xs \<Longrightarrow> position (xs @ [c]) c = length xs"
  by (induction xs) auto

lemma position_append_present: "c \<in> set xs \<Longrightarrow> position (xs @ ys) c = position xs c"
  by (induction xs) auto

lemma wf_row_length: "wf_table t \<Longrightarrow> i < length (rows t) \<Longrightarrow> length (rows t ! i) = length (columns t)"
  by (simp add: wf_table_def list_all_length)

lemma column_of_set_same:
  assumes "wf_table t" "length vs = length (rows t)"
  shows "column_of (set_column t c vs) c = vs"
proof (cases "c \<in> set (columns t)")
  case True
  show ?thesis
  proof (rule nth_equalityI)
    show "length (column_of (set_column t c vs) c) = length vs"
      using assms True by (simp add: column_of_def set_column_def)
  next
    fix i assume "i < length (column_of (set_column t c vs) c)"
    then have i: "i < length (rows t)"
      using assms True by (simp add: column_of_def set_column_def)
    have "position (columns t) c < length (rows t ! i)"
      using True assms i by (simp add: wf_row_length position_less)
    then show "column_of (set_column t c vs) c ! i = vs ! i"
      using assms True i by (simp add: column_of_def set_column_def position_less nth_position)
  qed
next
  case False
  show ?thesis
  proof (rule nth_equalityI)
    show "length (column_of (set_column t c vs) c) = length vs"
      using assms False by (simp add: column_of_def set_column_def)
  next
    fix i assume "i < length (column_of (set_column t c vs) c)"
    then have i: "i < length (rows t)"
      using assms False by (simp add: column_of_def set_column_def)
    have "length (rows t ! i) = length (columns t)"
      using assms i by (simp add: wf_row_length)
    then have "(rows t ! i @ [vs ! i]) ! length (columns t) = vs ! i"
      by (metis nth_append_length)
    then show "column_of (set_column t c vs) c ! i = vs ! i"
      using assms False i by (simp add: column_of_def set_column_def position_append_absent)
  qed
qed

lemma column_of_set_other:
  assumes "wf_table t" "length vs = length (rows t)" "c' \<noteq> c" "c' \<in> set (columns t)"
  shows "column_of (set_column t c vs) c' = column_of t c'"
proof (rule nth_equalityI)
  show "length (column_of (set_column t c vs) c') = length (column_of t c')"
    using assms by (simp add: column_of_def length_rows_set_column)
next
  fix i assume "i < length (column_of (set_column t c vs) c')"
  then have i: "i < length (rows t)"
    using assms by (simp add: column_of_def length_rows_set_column)
  have p: "position (columns t) c' < length (rows t ! i)"
    using assms i by (simp add: wf_row_length position_less)
  show "column_of (set_column t c vs) c' ! i = column_of t c' ! i"
    using assms i p
    by (simp add: column_of_def set_column_def position_less nth_position
        position_append_present nth_append)
qed

lemma column_of_cell_at: "column_of df c = map (\<lambda>r. cell_at df r c) (rows df)"
  by (simp add: column_of_def cell_at_def)

lemma row_id_wf:
  assumes "distinct (columns df)" "set cols \<subseteq> set (columns df)"
  shows "row_id L df cols r = StrV (join ''_'' (map (\<lambda>c. py_str L (cell_at df r c)) cols))"
proof -
  have "concat (map (col_positions df) cols) = map (position (columns df)) cols"
    using assms(2)
  proof (induction cols)
    case Nil
    then show ?case by simp
  next
    case (Cons c cs)
    then show ?case using assms(1) by (simp add: col_positions_distinct)
  qed
  then show ?thesis by (simp add: row_id_def cell_at_def comp_def)
qed


lemma get_series_set_same:
  assumes "wf_table t" "length vs = length (rows t)"
  shows "get_series (set_column t c vs) c = Inr vs"
proof -
  have "wf_table (set_column t c vs)" using assms by (simp add: wf_set_column)
  then have "distinct (columns (set_column t c vs))" by (simp add: wf_table_def)
  moreover have "c \<in> set (columns (set_column t c vs))" by (simp add: columns_set_column)
  ultimately show ?thesis
    using column_of_set_same [OF assms] by (simp add: get_series_wf)
qed

lemma get_series_set_other:
  assumes "wf_table t" "length vs = length (rows t)" "c' \<noteq> c"
  shows "get_series (set_column t c vs) c' = get_series t c'"
proof (cases "c' \<in> set (columns t)")
  case True
  have "wf_table (set_column t c vs)" using assms by (simp add: wf_set_column)
  then have "distinct (columns (set_column t c vs))" by (simp add: wf_table_def)
  moreover have "c' \<in> set (columns (set_column t c vs))"
    using True by (simp add: columns_set_column)
  moreover have "distinct (columns t)" using assms by (simp add: wf_table_def)
  ultimately show ?thesis
    using column_of_set_other [OF assms True] True by (simp add: get_series_wf)
next
  case False
  then have "c' \<notin> set (columns (set_column t c vs))"
    using assms by (simp add: columns_set_column)
  then show ?thesis using False by (simp add: get_series_absent)
qed

lemma create_unique_id_wf:
  assumes "wf_table df" "set cols \<subseteq> set (columns df)"
  shows "create_unique_id L df cols new_column
         = Inr (set_column df new_column
                  (map (\<lambda>r. StrV (join ''_'' (map (\<lambda>c. py_str L (cell_at df r c)) cols))) (rows df)))"
proof -
  have d: "distinct (columns df)" using assms by (simp add: wf_table_def)
  have "filter (\<lambda>c. c \<notin> set (columns df)) cols = []"
    using assms by (auto simp: filter_empty_conv)
  moreover have "row_id L df cols
        = (\<lambda>r. StrV (join ''_'' (map (\<lambda>c. py_str L (cell_at df r c)) cols)))"
    using row_id_wf [OF d assms(2)] by (intro ext)
  ultimately show ?thesis by (simp add: create_unique_id_def)
qed


section \<open>Lemmas on strings\<close>

lemma ws_prefix_nil: "ws_prefix E [] = 0"
proof (cases "find (\<lambda>w. startswith [] w) E")
  case None
  then show ?thesis by (simp add: ws_prefix_def)
next
  case (Some w)
  then have "startswith [] w" by (auto simp: find_Some_iff)
  then have "w = []" by (simp add: startswith_def)
  then show ?thesis using Some by (simp add: ws_prefix_def)
qed

lemma ws_prefix_pos:
  assumes "ws_prefix E s \<noteq> 0"
  shows "\<exists>w \<in> set E. s = w @ drop (ws_prefix E s) s"
proof -
  obtain w where f: "find (\<lambda>w. startswith s w) E = Some w"
    using assms by (cases "find (\<lambda>w. startswith s w) E") (auto simp: ws_prefix_def)
  then have w: "w \<in> set E" and st: "startswith s w"
    by (auto simp: find_Some_iff)
  have n: "ws_prefix E s = length w" using f by (simp add: ws_prefix_def)
  have "take (length w) s @ drop (length w) s = s" by (rule append_take_drop_id)
  moreover have "take (length w) s = w" using st by (simp add: startswith_def)
  ultimately have "s = w @ drop (length w) s" by simp
  then show ?thesis using w n by auto
qed

lemma lstrip_with_decomp:
  "\<exists>ws. s = concat ws @ lstrip_with E s \<and> set ws \<subseteq> set E"
proof (induction E s rule: lstrip_with.induct)
  case (1 E)
  show ?case by (intro exI [of _ "[]"]) simp
next
  case (2 E c cs)
  show ?case
  proof (cases "ws_prefix E (c # cs) = 0")
    case True
    then show ?thesis by (intro exI [of _ "[]"]) simp
  next
    case False
    let ?n = "ws_prefix E (c # cs)"
    obtain w where w: "w \<in> set E" and s: "c # cs = w @ drop ?n (c # cs)"
      using ws_prefix_pos [OF False] by blast
    obtain ws where d: "drop ?n (c # cs) = concat ws @ lstrip_with E (drop ?n (c # cs))"
        and sub: "set ws \<subseteq> set E"
      using "2.IH" [OF False] by blast
    have l: "lstrip_with E (c # cs) = lstrip_with E (drop ?n (c # cs))"
      using False by simp
    have "c # cs = concat (w # ws) @ lstrip_with E (c # cs)"
    proof -
      have "c # cs = w @ concat ws @ lstrip_with E (drop ?n (c # cs))"
        using s d by simp
      then show ?thesis using l by simp
    qed
    then show ?thesis using w sub by (intro exI [of _ "w # ws"]) simp
  qed
qed

lemma lstrip_with_no_ws: "ws_prefix E (lstrip_with E s) = 0"
proof (induction E s rule: lstrip_with.induct)
  case (1 E)
  show ?case by (simp add: ws_prefix_nil)
next
  case (2 E c cs)
  show ?case
  proof (cases "ws_prefix E (c # cs) = 0")
    case True
    then show ?thesis by simp
  next
    case False
    then show ?thesis using "2.IH" by simp
  qed
qed

lemma ws_prefix_zero_iff:
  assumes "[] \<notin> set E"
  shows "(ws_prefix E s = 0) = (\<forall>w \<in> set E. \<not> startswith s w)"
proof (cases "find (startswith s) E")
  case None
  then have "\<forall>w \<in> set E. \<not> startswith s w" by (simp add: find_None_iff)
  moreover have "ws_prefix E s = 0" using None by (simp add: ws_prefix_def)
  ultimately show ?thesis by simp
next
  case (Some w)
  then have w: "w \<in> set E" and st: "startswith s w" by (auto simp: find_Some_iff)
  then have "w \<noteq> []" using assms by auto
  moreover have "ws_prefix E s = length w" using Some by (simp add: ws_prefix_def)
  ultimately show ?thesis using w st by auto
qed

lemma startswith_append: "startswith t w \<Longrightarrow> startswith (t @ b) w"
proof -
  assume a: "startswith t w"
  then have "length (take (length w) t) = length w" by (simp add: startswith_def)
  then have "length w \<le> length t" by simp
  then show ?thesis using a by (simp add: startswith_def)
qed

lemma ws_prefix_of_prefix:
  "[] \<notin> set E \<Longrightarrow> ws_prefix E (t @ b) = 0 \<Longrightarrow> ws_prefix E t = 0"
  by (auto simp: ws_prefix_zero_iff dest: startswith_append)

lemma no_empty_whitespace: "[] \<notin> set whitespace"
  by (simp add: whitespace_def)

lemma strip_decomp:
  "\<exists>ws1 ws2. s = concat ws1 @ strip s @ concat ws2
       \<and> set ws1 \<subseteq> set whitespace \<and> set ws2 \<subseteq> set whitespace"
proof -
  obtain ws1 where a: "s = concat ws1 @ lstrip s" and s1: "set ws1 \<subseteq> set whitespace"
    using lstrip_with_decomp [of s whitespace] by (auto simp: lstrip_def)
  obtain ws' where b: "rev (lstrip s) = concat ws' @ rev (strip s)"
      and s': "set ws' \<subseteq> set (map rev whitespace)"
    using lstrip_with_decomp [of "rev (lstrip s)" "map rev whitespace"]
    by (auto simp: strip_def rstrip_def)
  have "rev (rev (lstrip s)) = rev (concat ws' @ rev (strip s))" using b by simp
  then have c: "lstrip s = strip s @ concat (map rev (rev ws'))"
    by (simp add: rev_concat)
  have s2: "set (map rev (rev ws')) \<subseteq> set whitespace"
    using s' by auto
  have "s = concat ws1 @ strip s @ concat (map rev (rev ws'))"
    using a c by simp
  then show ?thesis using s1 s2 by blast
qed

lemma strip_no_ws:
  "ws_prefix whitespace (strip s) = 0 \<and> ws_prefix (map rev whitespace) (rev (strip s)) = 0"
proof -
  have r: "ws_prefix (map rev whitespace) (rev (strip s)) = 0"
    by (simp add: strip_def rstrip_def lstrip_with_no_ws)
  obtain ws' where b: "rev (lstrip s) = concat ws' @ rev (strip s)"
    using lstrip_with_decomp [of "rev (lstrip s)" "map rev whitespace"]
    by (auto simp: strip_def rstrip_def)
  have "rev (rev (lstrip s)) = rev (concat ws' @ rev (strip s))" using b by simp
  then have c: "lstrip s = strip s @ rev (concat ws')" by simp
  have "ws_prefix whitespace (lstrip s) = 0" by (simp add: lstrip_def lstrip_with_no_ws)
  then have "ws_prefix whitespace (strip s @ rev (concat ws')) = 0" using c by simp
  then have "ws_prefix whitespace (strip s) = 0"
    by (rule ws_prefix_of_prefix [OF no_empty_whitespace])
  then show ?thesis using r by simp
qed

lemma str_replace_comma: "str_replace '','' [] s = filter (\<lambda>c. c \<noteq> CHR '','') s"
  by (induction s) (auto simp: startswith_def)







section \<open>Renaming columns\<close>

lemma rename_back:
  assumes inv: "\<forall>k v. (m' v = Some k) = (m k = Some v)"
      and fresh: "c \<notin> dom m \<longrightarrow> c \<notin> ran m"
  shows "rename_label m' (rename_label m c) = c"
proof (cases "m c")
  case None
  then have "c \<notin> ran m" using fresh by (simp add: dom_def)
  then have "m' c = None"
    using inv by (metis not_Some_eq ranI)
  with None show ?thesis by (simp add: rename_label_def)
next
  case (Some v)
  then have "m' v = Some c" using inv by simp
  with Some show ?thesis by (simp add: rename_label_def)
qed

text \<open>
  Claim C10, as amended.  Renaming with a mapping and then with its exact inverse restores
  the column labels when the mapping is injective and no label of the table that is not
  a key of the mapping is one of its values.  Renaming never touches the rows or the
  number of columns, a label that is not a key passes through unchanged, and a key that
  is not a label of the table has no effect.
\<close>

theorem rename_round_trip:
  "(inj_on m (dom m) \<and> (\<forall>k v. (m' v = Some k) = (m k = Some v))
      \<and> (\<forall>c \<in> set (columns df). c \<notin> dom m \<longrightarrow> c \<notin> ran m)
     \<longrightarrow> columns (convert_column_names (convert_column_names df m) m') = columns df)
   \<and> rows (convert_column_names df m) = rows df
   \<and> length (columns (convert_column_names df m)) = length (columns df)
   \<and> (\<forall>i < length (columns df). columns df ! i \<notin> dom m
         \<longrightarrow> columns (convert_column_names df m) ! i = columns df ! i)
   \<and> (k \<notin> set (columns df) \<longrightarrow> convert_column_names df (m(k \<mapsto> n)) = convert_column_names df m)"
proof -
  have a: "inj_on m (dom m) \<and> (\<forall>k v. (m' v = Some k) = (m k = Some v))
      \<and> (\<forall>c \<in> set (columns df). c \<notin> dom m \<longrightarrow> c \<notin> ran m)
     \<longrightarrow> columns (convert_column_names (convert_column_names df m) m') = columns df"
    by (auto simp: convert_column_names_def rename_back intro!: map_idI)
  have b: "\<forall>i < length (columns df). columns df ! i \<notin> dom m
         \<longrightarrow> columns (convert_column_names df m) ! i = columns df ! i"
    by (auto simp: convert_column_names_def rename_label_def dom_def)
  have c: "k \<notin> set (columns df) \<longrightarrow> convert_column_names df (m(k \<mapsto> n)) = convert_column_names df m"
    by (auto simp: convert_column_names_def rename_label_def)
  show ?thesis using a b c by (simp add: convert_column_names_def)
qed

text \<open>
  The claim as stated fails: with the labels \<open>a\<close> and \<open>b\<close> and the injective mapping
  \<open>{a: b}\<close>, the first renaming gives the labels \<open>b, b\<close> and the inverse mapping
  \<open>{b: a}\<close> turns both into \<open>a\<close>.
\<close>

theorem rename_round_trip_counterexample:
  "inj_on [''a'' \<mapsto> ''b''] (dom [''a'' \<mapsto> ''b''])
   \<and> columns (convert_column_names
        (convert_column_names \<lparr>columns = [''a'', ''b''], rows = []\<rparr> [''a'' \<mapsto> ''b''])
        [''b'' \<mapsto> ''a'']) = [''a'', ''a'']
   \<and> [''a'', ''a''] \<noteq> [''a'', ''b'']"
  by (simp add: convert_column_names_def rename_label_def)

theorem rename_round_trip_witness:
  "columns (convert_column_names
      (convert_column_names \<lparr>columns = [''Rk'', ''Squad'', ''Notes''], rows = []\<rparr>
         [''Rk'' \<mapsto> ''Rank'', ''Squad'' \<mapsto> ''Club'', ''W'' \<mapsto> ''Wins''])
      [''Rank'' \<mapsto> ''Rk'', ''Club'' \<mapsto> ''Squad'', ''Wins'' \<mapsto> ''W''])
     = [''Rk'', ''Squad'', ''Notes'']
   \<and> columns (convert_column_names \<lparr>columns = [''Rk'', ''Squad'', ''Notes''], rows = []\<rparr>
         [''Rk'' \<mapsto> ''Rank'', ''Squad'' \<mapsto> ''Club'', ''W'' \<mapsto> ''Wins''])
     = [''Rank'', ''Club'', ''Notes'']"
proof -
  let ?m = "[''Rk'' \<mapsto> ''Rank'', ''Squad'' \<mapsto> ''Club'', ''W'' \<mapsto> ''Wins'']"
  let ?m' = "[''Rank'' \<mapsto> ''Rk'', ''Club'' \<mapsto> ''Squad'', ''Wins'' \<mapsto> ''W'']"
  let ?df = "\<lparr>columns = [''Rk'', ''Squad'', ''Notes''], rows = []\<rparr>"
  have inj: "inj_on ?m (dom ?m)"
    by (auto simp: inj_on_def split: if_splits)
  have inv: "\<forall>k v. (?m' v = Some k) = (?m k = Some v)"
    by (auto split: if_splits)
  have fresh: "\<forall>c \<in> set (columns ?df). c \<notin> dom ?m \<longrightarrow> c \<notin> ran ?m"
    by (auto simp: ran_def split: if_splits)
  have "columns (convert_column_names (convert_column_names ?df ?m) ?m') = columns ?df"
    using rename_round_trip [of ?m ?m' ?df] inj inv fresh by blast
  then show ?thesis
    by (simp add: convert_column_names_def rename_label_def)
qed


section \<open>Composite keys\<close>




section \<open>Nationality groups\<close>

text \<open>
  Claim C6.  \<open>nationality_group\<close> returns one of the three labels for every row; the
  label is \<open>English\<close> exactly when the nationality is \<open>England\<close>, whatever the flag,
  \<open>European (excl. Eng)\<close> exactly when it is not and the flag is 1, and \<open>Non-European\<close>
  exactly in the remaining case.
\<close>

theorem nationality_group_total_exclusive:
  "nationality_group row \<in> set [''English'', ''European (excl. Eng)'', ''Non-European'']
   \<and> ((nationality_group row = ''English'') = (Nationality row = Some ''England''))
   \<and> ((nationality_group row = ''European (excl. Eng)'')
        = (Nationality row \<noteq> Some ''England'' \<and> euro_flag row = 1))
   \<and> ((nationality_group row = ''Non-European'')
        = (Nationality row \<noteq> Some ''England'' \<and> euro_flag row \<noteq> 1))
   \<and> nationality_group (row\<lparr>Nationality := Some ''England'', euro_flag := flag\<rparr>) = ''English''"
  by (simp add: nationality_group_def)


theorem nationality_group_total_exclusive_witness:
  "nationality_group \<lparr>Nationality = Some ''England'', euro_flag = 0\<rparr> = ''English''
   \<and> nationality_group \<lparr>Nationality = Some ''France'', euro_flag = 1\<rparr> = ''European (excl. Eng)''
   \<and> nationality_group \<lparr>Nationality = Some ''Japan'', euro_flag = 0\<rparr> = ''Non-European''
   \<and> nationality_group \<lparr>Nationality = None, euro_flag = 0\<rparr> = ''Non-European''"
  using nationality_group_total_exclusive [of "\<lparr>Nationality = Some ''England'', euro_flag = 0\<rparr>" 0]
    nationality_group_total_exclusive [of "\<lparr>Nationality = Some ''France'', euro_flag = 1\<rparr>" 0]
    nationality_group_total_exclusive [of "\<lparr>Nationality = Some ''Japan'', euro_flag = 0\<rparr>" 0]
    nationality_group_total_exclusive [of "\<lparr>Nationality = None, euro_flag = 0\<rparr>" 0]
  by simp


section \<open>Empty and absent input\<close>

text \<open>
  Claim C8.  For an absent table and for a table without rows, the season cleaning and
  the nationality cleaning print the skip notice and return their input unchanged,
  without an error.
\<close>

theorem empty_input_is_returned:
  "process_wsl_data L None start_year end_year = ([skip_notice start_year end_year], Inr None)
   \<and> process_nationality_data L None start_year end_year
       = ([skip_notice start_year end_year], Inr None)
   \<and> (rows df = [] \<longrightarrow>
        process_wsl_data L (Some df) start_year end_year
          = ([skip_notice start_year end_year], Inr (Some df))
        \<and> process_nationality_data L (Some df) start_year end_year
          = ([skip_notice start_year end_year], Inr (Some df)))"
  by (simp add: process_wsl_data_def process_nationality_data_def df_empty_def)

theorem empty_input_is_returned_witness:
  "rows \<lparr>columns = [''Squad'', ''Attendance''], rows = []\<rparr> = []
   \<and> process_wsl_data integer_lib (Some \<lparr>columns = [''Squad'', ''Attendance''], rows = []\<rparr>) 2020 2021
      = ([''Skipped cleaning for 2020_2021 (empty or missing)''],
         Inr (Some \<lparr>columns = [''Squad'', ''Attendance''], rows = []\<rparr>))
   \<and> process_nationality_data integer_lib (Some \<lparr>columns = [''Squad'', ''Attendance''], rows = []\<rparr>) 2020 2021
      = ([''Skipped cleaning for 2020_2021 (empty or missing)''],
         Inr (Some \<lparr>columns = [''Squad'', ''Attendance''], rows = []\<rparr>))"
proof -
  have s: "skip_notice 2020 2021 = ''Skipped cleaning for 2020_2021 (empty or missing)''"
    by code_simp
  show ?thesis
    using empty_input_is_returned [of integer_lib 2020 2021 "\<lparr>columns = [''Squad'', ''Attendance''], rows = []\<rparr>"]
    by (simp add: s)
qed


section \<open>The temporal split\<close>

lemma select_rows_filter:
  "rows (select_rows df (map P (rows df))) = filter P (rows df)"
proof -
  have "map snd (filter fst (zip (map P rs) rs)) = filter P rs" for rs :: "cell list list"
    by (induction rs) auto
  then show ?thesis by (simp add: select_rows_def)
qed

lemma fge_not_flt: "s \<noteq> NaN \<Longrightarrow> fge s (Fin k) = (\<not> flt s (Fin k))"
  by (cases s) (auto simp: fge_def)

lemma nan_in_neither: "\<not> flt NaN y \<and> \<not> fge NaN y"
  by (cases y) (auto simp: fge_def)

lemma mset_split:
  "mset (filter (\<lambda>r. flt (f r) (Fin k)) rs) + mset (filter (\<lambda>r. fge (f r) (Fin k)) rs)
     = mset (filter (\<lambda>r. f r \<noteq> NaN) rs)"
proof (induction rs)
  case Nil
  then show ?case by simp
next
  case (Cons r rs)
  show ?case
  proof (cases "f r = NaN")
    case True
    then show ?thesis using Cons by (simp add: nan_in_neither)
  next
    case False
    then show ?thesis using Cons by (simp add: fge_not_flt)
  qed
qed

lemma split_result:
  assumes "distinct (columns model_df)" "''Season'' \<in> set (columns model_df)"
      and "list_all is_num (column_of model_df ''Season'')"
  shows "train_test_split model_df split_year =
           Inr (model_df\<lparr>rows := filter (\<lambda>r. flt (season_of model_df r) (Fin (of_int split_year))) (rows model_df)\<rparr>,
                model_df\<lparr>rows := filter (\<lambda>r. fge (season_of model_df r) (Fin (of_int split_year))) (rows model_df)\<rparr>)"
proof -
  have r: "select_rows model_df (map P (map cell_float (column_of model_df ''Season'')))
        = model_df\<lparr>rows := filter (\<lambda>r. P (season_of model_df r)) (rows model_df)\<rparr>" for P
  proof -
    have "map P (map cell_float (column_of model_df ''Season''))
          = map (\<lambda>r. P (season_of model_df r)) (rows model_df)"
      by (simp add: column_of_def season_of_def)
    then show ?thesis
      using select_rows_filter [of model_df "\<lambda>r. P (season_of model_df r)"]
      by (simp add: select_rows_def)
  qed
  have "get_series model_df ''Season'' = Inr (column_of model_df ''Season'')"
    using assms by (simp add: get_series_wf)
  moreover have "column_floats (column_of model_df ''Season'')
        = Inr (map cell_float (column_of model_df ''Season''))"
    using assms by (simp add: column_floats_def)
  ultimately show ?thesis
    by (simp only: train_test_split_def r sum.case)
qed

text \<open>
  Claim C3.  On a table whose \<open>Season\<close> column is numeric, the split returns the rows
  with \<open>Season < split_year\<close> as the train partition and the rows with
  \<open>Season >= split_year\<close> as the test partition, both in the order of the input.  The
  rows with a non-null season are distributed over the two partitions, each occurrence
  in one of them; a row with a finite season is in train exactly when the season is
  below the split year and in test exactly when it is not.
\<close>

theorem temporal_split_is_partition:
  assumes "distinct (columns model_df)" "''Season'' \<in> set (columns model_df)"
      and "list_all is_num (column_of model_df ''Season'')"
  shows "\<exists>train test. train_test_split model_df split_year = Inr (train, test)
     \<and> columns train = columns model_df \<and> columns test = columns model_df
     \<and> rows train = filter (\<lambda>r. flt (season_of model_df r) (Fin (of_int split_year))) (rows model_df)
     \<and> rows test = filter (\<lambda>r. fge (season_of model_df r) (Fin (of_int split_year))) (rows model_df)
     \<and> subseq (rows train) (rows model_df) \<and> subseq (rows test) (rows model_df)
     \<and> mset (rows train) + mset (rows test)
         = mset (filter (\<lambda>r. season_of model_df r \<noteq> NaN) (rows model_df))
     \<and> (\<forall>r \<in> set (rows model_df). \<forall>s. season_of model_df r = Fin s \<longrightarrow>
           (r \<in> set (rows train)) = (s < of_int split_year)
         \<and> (r \<in> set (rows test)) = (of_int split_year \<le> s)
         \<and> (r \<in> set (rows train)) \<noteq> (r \<in> set (rows test)))"
proof -
  let ?train = "model_df\<lparr>rows := filter (\<lambda>r. flt (season_of model_df r) (Fin (of_int split_year))) (rows model_df)\<rparr>"
  let ?test = "model_df\<lparr>rows := filter (\<lambda>r. fge (season_of model_df r) (Fin (of_int split_year))) (rows model_df)\<rparr>"
  have 1: "train_test_split model_df split_year = Inr (?train, ?test)"
    by (rule split_result [OF assms])
  have 2: "mset (rows ?train) + mset (rows ?test)
         = mset (filter (\<lambda>r. season_of model_df r \<noteq> NaN) (rows model_df))"
    using mset_split [of "season_of model_df" "of_int split_year" "rows model_df"] by simp
  have 3: "\<forall>r \<in> set (rows model_df). \<forall>s. season_of model_df r = Fin s \<longrightarrow>
           (r \<in> set (rows ?train)) = (s < of_int split_year)
         \<and> (r \<in> set (rows ?test)) = (of_int split_year \<le> s)
         \<and> (r \<in> set (rows ?train)) \<noteq> (r \<in> set (rows ?test))"
    by (auto simp: fge_def)
  show ?thesis
    apply (rule exI [of _ ?train], rule exI [of _ ?test])
    using 1 2 3 by simp
qed

theorem temporal_split_is_partition_witness:
  "train_test_split
     \<lparr>columns = [''Club'', ''Season''],
      rows = [[StrV ''A'', NumV (PyFloat (Fin 2023))],
              [StrV ''B'', NumV (PyFloat (Fin 2021))],
              [StrV ''C'', NumV (PyFloat NaN)],
              [StrV ''D'', NumV (PyFloat (Fin 2022))]]\<rparr> 2022
   = Inr (\<lparr>columns = [''Club'', ''Season''],
           rows = [[StrV ''B'', NumV (PyFloat (Fin 2021))]]\<rparr>,
          \<lparr>columns = [''Club'', ''Season''],
           rows = [[StrV ''A'', NumV (PyFloat (Fin 2023))],
                   [StrV ''D'', NumV (PyFloat (Fin 2022))]]\<rparr>)"
proof -
  let ?df = "\<lparr>columns = [''Club'', ''Season''],
      rows = [[StrV ''A'', NumV (PyFloat (Fin 2023))],
              [StrV ''B'', NumV (PyFloat (Fin 2021))],
              [StrV ''C'', NumV (PyFloat NaN)],
              [StrV ''D'', NumV (PyFloat (Fin 2022))]]\<rparr>"
  have a: "distinct (columns ?df)" by simp
  have b: "''Season'' \<in> set (columns ?df)" by simp
  have c: "list_all is_num (column_of ?df ''Season'')" by (simp add: column_of_def)
  obtain train test where
    t: "train_test_split ?df 2022 = Inr (train, test)"
    and ct: "columns train = columns ?df" "columns test = columns ?df"
    and rt: "rows train = filter (\<lambda>r. flt (season_of ?df r) (Fin (of_int 2022))) (rows ?df)"
    and rs: "rows test = filter (\<lambda>r. fge (season_of ?df r) (Fin (of_int 2022))) (rows ?df)"
    using temporal_split_is_partition [OF a b c, of 2022] by blast
  have "train = \<lparr>columns = [''Club'', ''Season''], rows = [[StrV ''B'', NumV (PyFloat (Fin 2021))]]\<rparr>"
    using ct rt by (cases train) (simp add: season_of_def)
  moreover have "test = \<lparr>columns = [''Club'', ''Season''],
           rows = [[StrV ''A'', NumV (PyFloat (Fin 2023))],
                   [StrV ''D'', NumV (PyFloat (Fin 2022))]]\<rparr>"
    using ct rs by (cases test) (simp add: season_of_def fge_def)
  ultimately show ?thesis using t by simp
qed


section \<open>Fraction metrics with a zero actual value\<close>

lemma rel_error_zero_actual: "\<not> is_finite (rel_error (Fin 0) p)"
  by (cases p) (auto simp: rel_error_def fsub_def)

lemma fle_nonfinite: "\<not> is_finite x \<Longrightarrow> x \<noteq> NegInf \<Longrightarrow> \<not> fle x (Fin t)"
  by (cases x) auto

lemma rel_error_not_neginf: "rel_error y p \<noteq> NegInf"
  by (cases "fdiv (fsub y p) y") (simp_all add: rel_error_def)

lemma mean_bool_range:
  "bs \<noteq> [] \<Longrightarrow> \<exists>q. mean_bool bs = Fin q \<and> 0 \<le> q \<and> q \<le> 1"
proof -
  assume ne: "bs \<noteq> []"
  have "length (filter (\<lambda>b. b) bs) \<le> length bs" by simp
  then have "(of_nat (length (filter (\<lambda>b. b) bs)) :: rat) \<le> of_nat (length bs)"
    by (simp only: of_nat_le_iff)
  moreover have "(0::rat) < of_nat (length bs)" using ne by simp
  ultimately show ?thesis
    by (simp add: mean_bool_def ne divide_le_eq_1)
qed

text \<open>
  Claim C9, as amended.  The two relative metrics divide by the actual value of each row.
  For a row whose actual value is zero the ratio is not finite, no error is raised, and
  the comparison with the tolerance is false: the row counts as outside the tolerance.
  The metric of a non-empty partition is therefore always a finite fraction between 0
  and 1.
\<close>

theorem pct_within_zero_actual:
  "\<not> is_finite (rel_error (Fin 0) p)
   \<and> \<not> fle (rel_error (Fin 0) p) (Fin tol)
   \<and> PctWithin10pct (compute_metrics y_true y_pred) = pct_within_rel (1 / 10) y_true y_pred
   \<and> PctWithin15pct (compute_metrics y_true y_pred) = pct_within_rel (15 / 100) y_true y_pred
   \<and> (y_true \<noteq> [] \<and> length y_pred = length y_true \<longrightarrow>
        (\<exists>q. pct_within_rel tol y_true y_pred = Fin q \<and> 0 \<le> q \<and> q \<le> 1))"
proof -
  have "\<not> fle (rel_error (Fin 0) p) (Fin tol)"
    by (rule fle_nonfinite [OF rel_error_zero_actual rel_error_not_neginf])
  moreover have "y_true \<noteq> [] \<and> length y_pred = length y_true \<longrightarrow>
        (\<exists>q. pct_within_rel tol y_true y_pred = Fin q \<and> 0 \<le> q \<and> q \<le> 1)"
    unfolding pct_within_rel_def by (intro impI mean_bool_range) auto
  ultimately show ?thesis
    by (simp add: rel_error_zero_actual compute_metrics_def)
qed

text \<open>
  The claim as stated fails: with the actual values 0 and 100 and the predictions 5 and
  100, both relative metrics are the finite value 0.5.
\<close>

theorem pct_within_zero_actual_counterexample:
  "PctWithin10pct (compute_metrics [Fin 0, Fin 100] [Fin 5, Fin 100]) = Fin (1 / 2)
   \<and> PctWithin15pct (compute_metrics [Fin 0, Fin 100] [Fin 5, Fin 100]) = Fin (1 / 2)
   \<and> is_finite (Fin (1 / 2))"
  by (simp add: compute_metrics_def pct_within_rel_def mean_bool_def rel_error_def fsub_def)

theorem pct_within_zero_actual_witness:
  "[Fin 0, Fin 100] \<noteq> [] \<and> length [Fin 5, Fin 100] = length [Fin 0, Fin 100 :: float64]
   \<and> \<not> is_finite (rel_error (Fin 0) (Fin 5))
   \<and> (\<exists>q. pct_within_rel (1 / 10) [Fin 0, Fin 100] [Fin 5, Fin 100] = Fin q \<and> 0 \<le> q \<and> q \<le> 1)"
  using pct_within_zero_actual [of "Fin 5" "1 / 10" "[Fin 0, Fin 100]" "[Fin 5, Fin 100]"]
  by simp



section \<open>Numeric coercion\<close>

lemma length_to_numeric: "length (to_numeric L xs) = length xs"
  by (simp add: to_numeric_def Let_def)

lemma to_numeric_nth:
  assumes "i < length xs"
  shows "is_num (to_numeric L xs ! i)
         \<and> cell_float (to_numeric L xs ! i)
             = (case parse_number L (xs ! i) of None \<Rightarrow> NaN | Some n \<Rightarrow> as_float n)"
proof -
  have "as_float (coerce r) = (case r of None \<Rightarrow> NaN | Some n \<Rightarrow> as_float n)" for r
    by (cases r) (simp_all add: coerce_def)
  then show ?thesis using assms by (simp add: to_numeric_def Let_def)
qed

lemma column_of_wf:
  "wf_table t \<Longrightarrow> c \<in> set (columns t) \<Longrightarrow> get_series t c = Inr (column_of t c)"
  by (simp add: get_series_wf wf_table_def)

lemma length_column_of: "length (column_of t c) = length (rows t)"
  by (simp add: column_of_def)

lemma convert_to_numeric_passes:
  assumes "wf_table df" "set cols \<subseteq> set (columns df)"
  shows "\<exists>out. convert_to_numeric L df cols = Inr out \<and> wf_table out
           \<and> columns out = columns df \<and> length (rows out) = length (rows df)
           \<and> (\<forall>c \<in> set (columns df). column_of out c =
                 ((\<lambda>s. to_numeric L (map (clean_number_text L) s)) ^^ count_list cols c)
                   (column_of df c))"
  using assms
proof (induction cols arbitrary: df)
  case Nil
  then show ?case by simp
next
  case (Cons col cols)
  let ?F = "\<lambda>s. to_numeric L (map (clean_number_text L) s)"
  let ?vs = "?F (column_of df col)"
  let ?df1 = "set_column df col ?vs"
  have col: "col \<in> set (columns df)" using Cons.prems by simp
  have l: "length ?vs = length (rows df)" by (simp add: length_to_numeric length_column_of)
  have wf1: "wf_table ?df1" using Cons.prems by (simp add: wf_set_column)
  have c1: "columns ?df1 = columns df" using col by (simp add: columns_set_column)
  have r1: "length (rows ?df1) = length (rows df)" using l by (rule length_rows_set_column)
  have "\<exists>out. convert_to_numeric L ?df1 cols = Inr out \<and> wf_table out
           \<and> columns out = columns ?df1 \<and> length (rows out) = length (rows ?df1)
           \<and> (\<forall>c \<in> set (columns ?df1). column_of out c =
                 (?F ^^ count_list cols c) (column_of ?df1 c))"
    using Cons.prems wf1 c1 by (intro Cons.IH) auto
  then obtain out where o: "convert_to_numeric L ?df1 cols = Inr out" "wf_table out"
      "columns out = columns ?df1" "length (rows out) = length (rows ?df1)"
      and oc: "\<forall>c \<in> set (columns ?df1). column_of out c =
                 (?F ^^ count_list cols c) (column_of ?df1 c)"
    by blast
  have step: "convert_to_numeric L df (col # cols) = Inr out"
    using o(1) Cons.prems(1) col by (simp add: column_of_wf)
  have same: "column_of ?df1 col = ?vs"
    using Cons.prems(1) l by (rule column_of_set_same)
  have other: "c \<in> set (columns df) \<Longrightarrow> c \<noteq> col \<Longrightarrow> column_of ?df1 c = column_of df c" for c
    using column_of_set_other [OF Cons.prems(1) l] by simp
  have "\<forall>c \<in> set (columns df). column_of out c =
                 (?F ^^ count_list (col # cols) c) (column_of df c)"
  proof
    fix c assume c: "c \<in> set (columns df)"
    show "column_of out c = (?F ^^ count_list (col # cols) c) (column_of df c)"
    proof (cases "c = col")
      case True
      have "column_of out c = (?F ^^ count_list cols c) (?F (column_of df c))"
        using oc c c1 True same by simp
      also have "\<dots> = (?F ^^ Suc (count_list cols c)) (column_of df c)"
        by (simp only: funpow_Suc_right comp_def)
      finally show ?thesis using True by simp
    next
      case False
      then show ?thesis using oc c c1 other [OF c False] by simp
    qed
  qed
  then show ?case using step o c1 r1 by simp
qed

text \<open>A listed column that the table does not have raises \<open>KeyError\<close>.\<close>

lemma convert_to_numeric_missing_column:
  assumes "wf_table df" "c \<in> set cols" "c \<notin> set (columns df)"
  shows "\<exists>c'. convert_to_numeric L df cols = Inl (KeyError c')
           \<and> c' \<in> set cols \<and> c' \<notin> set (columns df)"
  using assms
proof (induction cols arbitrary: df)
  case Nil
  then show ?case by simp
next
  case (Cons col cols)
  show ?case
  proof (cases "col \<in> set (columns df)")
    case False
    then show ?thesis by (auto simp: get_series_absent)
  next
    case True
    let ?df1 = "set_column df col (to_numeric L (map (clean_number_text L) (column_of df col)))"
    have c: "c \<in> set cols" using Cons.prems True by auto
    have wf1: "wf_table ?df1" using Cons.prems by (simp add: wf_set_column)
    have c1: "columns ?df1 = columns df" using True by (simp add: columns_set_column)
    obtain c' where "convert_to_numeric L ?df1 cols = Inl (KeyError c')"
        "c' \<in> set cols" "c' \<notin> set (columns ?df1)"
      using Cons.IH [OF wf1 c] Cons.prems(3) c1 by auto
    then show ?thesis using True Cons.prems(1) c1 by (auto simp: column_of_wf)
  qed
qed

text \<open>
  Claim C4.  On a well-formed table that has every listed column, \<open>convert_to_numeric\<close>
  does not raise: it returns the table with the same labels and rows, in which a column
  has been converted once for each time it is listed.  Converting a column takes the text
  form of each cell, removes every comma, strips the whitespace at both ends (none is
  left there, and nothing else is removed) and reads a number from the result; every new
  cell is a number, and it is NaN where the parser fails.  Columns that are not listed
  are unchanged.
\<close>

theorem convert_to_numeric_coerces:
  assumes "wf_table df" "set cols \<subseteq> set (columns df)"
  shows "\<exists>out. convert_to_numeric L df cols = Inr out \<and> wf_table out
           \<and> columns out = columns df \<and> length (rows out) = length (rows df)
           \<and> (\<forall>c \<in> set (columns df). get_series out c =
                 Inr (((\<lambda>s. to_numeric L (map (clean_number_text L) s)) ^^ count_list cols c)
                        (column_of df c)))
           \<and> (\<forall>xs. length (to_numeric L xs) = length xs
                 \<and> (\<forall>i < length xs. is_num (to_numeric L xs ! i)
                       \<and> cell_float (to_numeric L xs ! i)
                           = (case parse_number L (xs ! i) of None \<Rightarrow> NaN | Some n \<Rightarrow> as_float n)))
           \<and> (\<forall>v. clean_number_text L v = strip (filter (\<lambda>c. c \<noteq> CHR '','') (py_str L v)))
           \<and> (\<forall>s. ws_prefix whitespace (strip s) = 0
                 \<and> ws_prefix (map rev whitespace) (rev (strip s)) = 0
                 \<and> (\<exists>ws1 ws2. s = concat ws1 @ strip s @ concat ws2
                       \<and> set ws1 \<subseteq> set whitespace \<and> set ws2 \<subseteq> set whitespace))"
proof -
  obtain out where o: "convert_to_numeric L df cols = Inr out" "wf_table out"
      "columns out = columns df" "length (rows out) = length (rows df)"
      and oc: "\<forall>c \<in> set (columns df). column_of out c =
                 ((\<lambda>s. to_numeric L (map (clean_number_text L) s)) ^^ count_list cols c)
                   (column_of df c)"
    using convert_to_numeric_passes [OF assms] by blast
  have a: "\<forall>c \<in> set (columns df). get_series out c =
                 Inr (((\<lambda>s. to_numeric L (map (clean_number_text L) s)) ^^ count_list cols c)
                        (column_of df c))"
    using o oc by (simp add: column_of_wf)
  have b: "\<forall>xs. length (to_numeric L xs) = length xs
                 \<and> (\<forall>i < length xs. is_num (to_numeric L xs ! i)
                       \<and> cell_float (to_numeric L xs ! i)
                           = (case parse_number L (xs ! i) of None \<Rightarrow> NaN | Some n \<Rightarrow> as_float n))"
    by (simp add: length_to_numeric to_numeric_nth)
  have c: "\<forall>v. clean_number_text L v = strip (filter (\<lambda>c. c \<noteq> CHR '','') (py_str L v))"
    by (simp add: clean_number_text_def str_replace_comma)
  have d: "\<forall>s. ws_prefix whitespace (strip s) = 0
                 \<and> ws_prefix (map rev whitespace) (rev (strip s)) = 0
                 \<and> (\<exists>ws1 ws2. s = concat ws1 @ strip s @ concat ws2
                       \<and> set ws1 \<subseteq> set whitespace \<and> set ws2 \<subseteq> set whitespace)"
    using strip_no_ws strip_decomp by blast
  show ?thesis
    by (rule exI [of _ out]) (intro conjI o a b c d)
qed

text \<open>
  The examples of the specification, \<open>"1,234"\<close>, \<open>"N/A"\<close> and the empty string, beside
  values with surrounding blanks, a no-break space at the end and a cell that is a number
  already.
\<close>

theorem convert_to_numeric_coerces_witness:
  "\<exists>out. convert_to_numeric integer_lib
      \<lparr>columns = [''Club'', ''Attendance'', ''Goals''],
       rows = [[StrV ''A'', StrV ''1,234'', StrV '' 12 ''],
               [StrV ''B'', StrV ''N/A'', NumV (PyInt 7)],
               [StrV ''C'', StrV '''', StrV (''1,000'' @ [CHR 0xC2, CHR 0xA0])]]\<rparr>
      [''Attendance'', ''Goals''] = Inr out
    \<and> get_series out ''Attendance'' = Inr [NumV (PyFloat (Fin 1234)), nan, nan]
    \<and> get_series out ''Goals'' = Inr [NumV (PyInt 12), NumV (PyInt 7), NumV (PyInt 1000)]
    \<and> get_series out ''Club'' = Inr [StrV ''A'', StrV ''B'', StrV ''C'']"
proof -
  let ?df = "\<lparr>columns = [''Club'', ''Attendance'', ''Goals''],
       rows = [[StrV ''A'', StrV ''1,234'', StrV '' 12 ''],
               [StrV ''B'', StrV ''N/A'', NumV (PyInt 7)],
               [StrV ''C'', StrV '''', StrV (''1,000'' @ [CHR 0xC2, CHR 0xA0])]]\<rparr>"
  have wf: "wf_table ?df" by (simp add: wf_table_def)
  have sub: "set [''Attendance'', ''Goals''] \<subseteq> set (columns ?df)" by simp
  obtain out where o: "convert_to_numeric integer_lib ?df [''Attendance'', ''Goals''] = Inr out"
    and g: "\<forall>c \<in> set (columns ?df). get_series out c =
                 Inr (((\<lambda>s. to_numeric integer_lib (map (clean_number_text integer_lib) s))
                         ^^ count_list [''Attendance'', ''Goals''] c) (column_of ?df c))"
    and cl: "\<forall>v. clean_number_text integer_lib v
                 = strip (filter (\<lambda>c. c \<noteq> CHR '','') (py_str integer_lib v))"
    using convert_to_numeric_coerces [OF wf sub, of integer_lib] by blast
  have s7: "show_int 7 = ''7''" by code_simp
  have t: "strip ''1234'' = ''1234'' \<and> strip ''N/A'' = ''N/A'' \<and> strip '''' = ''''
           \<and> strip '' 12 '' = ''12'' \<and> strip ''7'' = ''7''
           \<and> strip (''1000'' @ [CHR 0xC2, CHR 0xA0]) = ''1000''"
    by (simp add: strip_def lstrip_def rstrip_def ws_prefix_def whitespace_def startswith_def)
  have p: "parse_int_literal ''1234'' = Some (PyInt 1234) \<and> parse_int_literal ''N/A'' = None
           \<and> parse_int_literal '''' = None \<and> parse_int_literal ''12'' = Some (PyInt 12)
           \<and> parse_int_literal ''7'' = Some (PyInt 7)
           \<and> parse_int_literal ''1000'' = Some (PyInt 1000)"
    by (simp add: parse_int_literal_def is_digit_def digits_nat_def)
  have ca: "map (clean_number_text integer_lib) (column_of ?df ''Attendance'')
            = [''1234'', ''N/A'', '''']"
    using t by (simp add: column_of_def cl)
  have cb: "map (clean_number_text integer_lib) (column_of ?df ''Goals'') = [''12'', ''7'', ''1000'']"
    using t by (simp add: column_of_def cl s7)
  have a: "to_numeric integer_lib (map (clean_number_text integer_lib) (column_of ?df ''Attendance''))
           = [NumV (PyFloat (Fin 1234)), nan, nan]"
    unfolding ca using p by (simp add: to_numeric_def integer_lib_def coerce_def nan_def)
  have b: "to_numeric integer_lib (map (clean_number_text integer_lib) (column_of ?df ''Goals''))
           = [NumV (PyInt 12), NumV (PyInt 7), NumV (PyInt 1000)]"
    unfolding cb using p by (simp add: to_numeric_def integer_lib_def coerce_def)
  have c: "column_of ?df ''Club'' = [StrV ''A'', StrV ''B'', StrV ''C'']"
    by (simp add: column_of_def)
  have "get_series out ''Attendance'' = Inr [NumV (PyFloat (Fin 1234)), nan, nan]"
    using g a by simp
  moreover have "get_series out ''Goals'' = Inr [NumV (PyInt 12), NumV (PyInt 7), NumV (PyInt 1000)]"
    using g b by simp
  moreover have "get_series out ''Club'' = Inr [StrV ''A'', StrV ''B'', StrV ''C'']"
    using g c by simp
  ultimately show ?thesis using o by blast
qed


section \<open>The European allow-list\<close>

lemma position_map_inj:
  "distinct (map f xs) \<Longrightarrow> c \<in> set xs \<Longrightarrow> position (map f xs) (f c) = position xs c"
  by (induction xs) auto

lemma column_of_rename:
  assumes "distinct (map (rename_label m) (columns t))" "c \<in> set (columns t)"
  shows "column_of (convert_column_names t m) (rename_label m c) = column_of t c"
  using position_map_inj [OF assms]
  by (simp add: column_of_def convert_column_names_def)

lemma wf_rename:
  "wf_table t \<Longrightarrow> distinct (map (rename_label m) (columns t))
     \<Longrightarrow> wf_table (convert_column_names t m)"
  by (simp add: wf_table_def convert_column_names_def)

lemma nationality_steps_wf:
  assumes wf: "wf_table df"
      and nation: "''Nation'' \<in> set (columns df)"
      and d2: "distinct (map (rename_label NATIONALITY_COL_MAP) (columns df))"
      and need: "set [''Rank'', ''Num_Players'', ''Minutes_Played'']
                   \<subseteq> set (map (rename_label NATIONALITY_COL_MAP) (columns df))"
      and spaced: "list_ex (\<lambda>v. split_once '' '' (py_str L v) \<noteq> None) (column_of df ''Nation'')"
  shows "\<exists>out. nationality_steps L df start_year end_year = Inr out
           \<and> get_series out ''Nationality''
               = Inr (map (\<lambda>v. clean_nation (py_str L v)) (column_of df ''Nation''))
           \<and> get_series out ''euro_flag''
               = Inr (map (\<lambda>v. NumV (PyInt (euro_flag_of (clean_nation (py_str L v)))))
                        (column_of df ''Nation''))
           \<and> get_series out ''group''
               = Inr (map (\<lambda>v. group_of (clean_nation (py_str L v))) (column_of df ''Nation''))"
proof -
  let ?n = "length (rows df)"
  let ?tokens = "map (\<lambda>v. clean_nation (py_str L v)) (column_of df ''Nation'')"
  let ?df1 = "set_column df ''Nation'' ?tokens"
  let ?df2 = "convert_column_names ?df1 NATIONALITY_COL_MAP"
  let ?df3 = "set_scalar ?df2 ''season'' (StrV (season_label start_year end_year))"
  let ?ids = "map (\<lambda>r. StrV (join ''_'' (map (\<lambda>c. py_str L (cell_at ?df3 r c)) [''season'', ''Rank'']))) (rows ?df3)"
  let ?df4 = "set_column ?df3 ''Season_Rank'' ?ids"
  have g0: "get_series df ''Nation'' = Inr (column_of df ''Nation'')"
    using wf nation by (rule column_of_wf)
  have ns: "(column_of df ''Nation'' \<noteq> []
             \<and> list_all (\<lambda>v. split_once '' '' (py_str L v) = None) (column_of df ''Nation''))
            = False"
    using spaced by (auto simp: list_all_iff list_ex_iff)
  have l1: "length ?tokens = ?n" by (simp add: length_column_of)
  have wf1: "wf_table ?df1" using wf by (rule wf_set_column)
  have c1: "columns ?df1 = columns df" using nation by (simp add: columns_set_column)
  have r1: "length (rows ?df1) = ?n" using l1 by (rule length_rows_set_column)
  have col1: "column_of ?df1 ''Nation'' = ?tokens" using wf l1 by (rule column_of_set_same)
  have ren: "rename_label NATIONALITY_COL_MAP ''Nation'' = ''Nationality''"
    by (simp add: rename_label_def NATIONALITY_COL_MAP_def)
  have wf2: "wf_table ?df2" using wf1 d2 c1 by (simp add: wf_rename)
  have c2: "columns ?df2 = map (rename_label NATIONALITY_COL_MAP) (columns df)"
    using c1 by (simp add: convert_column_names_def)
  have r2: "length (rows ?df2) = ?n" using r1 by (simp add: convert_column_names_def)
  have col2: "column_of ?df2 ''Nationality'' = ?tokens"
    using column_of_rename [of NATIONALITY_COL_MAP ?df1 "''Nation''"] d2 c1 nation col1 ren
    by simp
  have n2: "''Nationality'' \<in> set (columns ?df2)"
    using nation ren c2 by (metis image_eqI list.set_map)
  have l3: "length (replicate (length (rows ?df2)) (StrV (season_label start_year end_year)))
              = length (rows ?df2)" by simp
  have wf3: "wf_table ?df3" using wf2 by (simp add: set_scalar_def wf_set_column)
  have r3: "length (rows ?df3) = ?n"
    using length_rows_set_column [OF l3] r2 by (simp add: set_scalar_def)
  have sub3: "set (columns ?df2) \<subseteq> set (columns ?df3)"
    by (auto simp: set_scalar_def columns_set_column)
  have s3: "''season'' \<in> set (columns ?df3)"
    by (simp add: set_scalar_def columns_set_column)
  have col3: "column_of ?df3 ''Nationality'' = ?tokens"
    using column_of_set_other [OF wf2 l3, of "''Nationality''" "''season''"] n2 col2
    by (simp add: set_scalar_def)
  have k3: "set [''season'', ''Rank''] \<subseteq> set (columns ?df3)"
    using s3 sub3 need c2 by auto
  have cu: "create_unique_id L ?df3 [''season'', ''Rank''] ''Season_Rank'' = Inr ?df4"
    using wf3 k3 by (rule create_unique_id_wf)
  have l4: "length ?ids = length (rows ?df3)" by simp
  have wf4: "wf_table ?df4" using wf3 by (rule wf_set_column)
  have r4: "length (rows ?df4) = ?n" using length_rows_set_column [OF l4] r3 by simp
  have sub4: "set (columns ?df3) \<subseteq> set (columns ?df4)"
    by (auto simp: columns_set_column)
  have col4: "column_of ?df4 ''Nationality'' = ?tokens"
    using column_of_set_other [OF wf3 l4, of "''Nationality''" "''Season_Rank''"] n2 sub3 col3
    by auto
  have k4: "set [''Num_Players'', ''Minutes_Played''] \<subseteq> set (columns ?df4)"
    using sub4 sub3 need c2 by auto
  obtain df5 where o5: "convert_to_numeric L ?df4 [''Num_Players'', ''Minutes_Played''] = Inr df5"
      and wf5: "wf_table df5" and c5: "columns df5 = columns ?df4"
      and r5: "length (rows df5) = length (rows ?df4)"
      and oc: "\<forall>c \<in> set (columns ?df4). column_of df5 c =
                 ((\<lambda>s. to_numeric L (map (clean_number_text L) s))
                    ^^ count_list [''Num_Players'', ''Minutes_Played''] c) (column_of ?df4 c)"
    using convert_to_numeric_passes [OF wf4 k4, of L] by auto
  have n5: "''Nationality'' \<in> set (columns df5)" using c5 sub4 sub3 n2 by auto
  have col5: "column_of df5 ''Nationality'' = ?tokens"
    using oc n5 c5 col4 by simp
  have g5: "get_series df5 ''Nationality'' = Inr ?tokens"
    using column_of_wf [OF wf5 n5] col5 by simp
  let ?flags = "map (\<lambda>x. NumV (PyInt (euro_flag_of x))) ?tokens"
  let ?groups = "map group_of ?tokens"
  let ?df6 = "set_column df5 ''euro_flag'' ?flags"
  let ?out = "set_column ?df6 ''group'' ?groups"
  have lf: "length ?flags = length (rows df5)" using r5 r4 by (simp add: length_column_of)
  have wf6: "wf_table ?df6" using wf5 by (rule wf_set_column)
  have r6: "length (rows ?df6) = length (rows df5)" using lf by (rule length_rows_set_column)
  have lg: "length ?groups = length (rows ?df6)" using r6 r5 r4 by (simp add: length_column_of)
  have res: "nationality_steps L df start_year end_year = Inr ?out"
    unfolding nationality_steps_def Let_def
    by (simp only: g0 sum.case ns if_False cu o5 g5)
  have a: "get_series ?out ''group'' = Inr ?groups"
    using wf6 lg by (rule get_series_set_same)
  have b: "get_series ?out ''euro_flag'' = Inr ?flags"
    using get_series_set_other [OF wf6 lg, of "''euro_flag''" "''group''"]
      get_series_set_same [OF wf5 lf, of "''euro_flag''"] by simp
  have c: "get_series ?out ''Nationality'' = Inr ?tokens"
    using get_series_set_other [OF wf6 lg, of "''Nationality''" "''group''"]
      get_series_set_other [OF wf5 lf, of "''Nationality''" "''euro_flag''"] g5 by simp
  show ?thesis
    using res a b c by (simp add: comp_def)
qed

lemma nationality_steps_no_space:
  assumes wf: "wf_table df"
      and nation: "''Nation'' \<in> set (columns df)"
      and rows: "rows df \<noteq> []"
      and none: "\<not> list_ex (\<lambda>v. split_once '' '' (py_str L v) \<noteq> None) (column_of df ''Nation'')"
  shows "nationality_steps L df start_year end_year = Inl AttributeError"
proof -
  have g0: "get_series df ''Nation'' = Inr (column_of df ''Nation'')"
    using wf nation by (rule column_of_wf)
  have ne: "column_of df ''Nation'' \<noteq> []" using rows by (simp add: column_of_def)
  have "list_all (\<lambda>v. split_once '' '' (py_str L v) = None) (column_of df ''Nation'')"
    unfolding list_all_iff
  proof
    fix v assume "v \<in> set (column_of df ''Nation'')"
    then have "\<not> split_once '' '' (py_str L v) \<noteq> None"
      using none unfolding list_ex_iff by blast
    then show "split_once '' '' (py_str L v) = None" by blast
  qed
  then show ?thesis using g0 ne by (simp add: nationality_steps_def)
qed

lemma belgium_norway_flag:
  "x = StrV ''Belgium'' \<or> x = StrV ''Norway''
     \<Longrightarrow> euro_flag_of x = 0 \<and> group_of x = StrV ''Non-European''"
  by (auto simp: euro_flag_of_def group_of_def nationality_group_def EURO_COUNTRIES_def)

lemma token_has_space: "clean_nation s = StrV t \<Longrightarrow> split_once '' '' s \<noteq> None"
  by (auto simp: clean_nation_def nan_def split: option.splits)

text \<open>
  Claim C5.  The allow-list holds the fused entry \<open>BelgiumNorway\<close> and neither
  \<open>Belgium\<close> nor \<open>Norway\<close>.  On a well-formed, non-empty nationality table with the
  columns the cleaning needs, every row whose cleaned country token is \<open>Belgium\<close> or
  \<open>Norway\<close> gets \<open>euro_flag = 0\<close> and the group \<open>Non-European\<close> from
  \<open>process_nationality_data\<close>.  The cleaning succeeds whenever some value of \<open>Nation\<close>
  contains a space, and raises \<open>AttributeError\<close> otherwise.
\<close>

theorem belgium_norway_not_european:
  assumes wf: "wf_table df"
      and nation: "''Nation'' \<in> set (columns df)"
      and d2: "distinct (map (rename_label NATIONALITY_COL_MAP) (columns df))"
      and need: "set [''Rank'', ''Num_Players'', ''Minutes_Played'']
                   \<subseteq> set (map (rename_label NATIONALITY_COL_MAP) (columns df))"
      and rows: "rows df \<noteq> []"
  shows "''BelgiumNorway'' \<in> set EURO_COUNTRIES
     \<and> ''Belgium'' \<notin> set EURO_COUNTRIES \<and> ''Norway'' \<notin> set EURO_COUNTRIES
     \<and> (\<forall>i < length (rows df).
           clean_nation (py_str L (cell_at df (rows df ! i) ''Nation'')) = StrV ''Belgium''
           \<or> clean_nation (py_str L (cell_at df (rows df ! i) ''Nation'')) = StrV ''Norway''
           \<longrightarrow> (\<exists>log out flags groups.
                  process_nationality_data L (Some df) start_year end_year = (log, Inr (Some out))
                \<and> get_series out ''euro_flag'' = Inr flags \<and> get_series out ''group'' = Inr groups
                \<and> length flags = length (rows df) \<and> length groups = length (rows df)
                \<and> flags ! i = NumV (PyInt 0) \<and> groups ! i = StrV ''Non-European''))
     \<and> (list_ex (\<lambda>v. split_once '' '' (py_str L v) \<noteq> None) (column_of df ''Nation'') \<longrightarrow>
          (\<exists>log out flags groups.
             process_nationality_data L (Some df) start_year end_year = (log, Inr (Some out))
           \<and> get_series out ''euro_flag'' = Inr flags \<and> get_series out ''group'' = Inr groups
           \<and> length flags = length (rows df) \<and> length groups = length (rows df)
           \<and> (\<forall>i < length (rows df).
                 clean_nation (py_str L (cell_at df (rows df ! i) ''Nation'')) = StrV ''Belgium''
                 \<or> clean_nation (py_str L (cell_at df (rows df ! i) ''Nation'')) = StrV ''Norway''
                 \<longrightarrow> flags ! i = NumV (PyInt 0) \<and> groups ! i = StrV ''Non-European'')))
     \<and> (\<not> list_ex (\<lambda>v. split_once '' '' (py_str L v) \<noteq> None) (column_of df ''Nation'') \<longrightarrow>
          process_nationality_data L (Some df) start_year end_year
            = ([''Cleaning nationality season data for ''
                  @ season_label start_year end_year @ ''...''],
               Inl AttributeError))"
proof -
  let ?spaced = "list_ex (\<lambda>v. split_once '' '' (py_str L v) \<noteq> None) (column_of df ''Nation'')"
  let ?flags = "map (\<lambda>v. NumV (PyInt (euro_flag_of (clean_nation (py_str L v)))))
                        (column_of df ''Nation'')"
  let ?groups = "map (\<lambda>v. group_of (clean_nation (py_str L v))) (column_of df ''Nation'')"
  have ne: "\<not> df_empty df" using rows nation by (auto simp: df_empty_def)
  have rowwise: "\<forall>i < length (rows df).
               clean_nation (py_str L (cell_at df (rows df ! i) ''Nation'')) = StrV ''Belgium''
               \<or> clean_nation (py_str L (cell_at df (rows df ! i) ''Nation'')) = StrV ''Norway''
               \<longrightarrow> ?flags ! i = NumV (PyInt 0) \<and> ?groups ! i = StrV ''Non-European''"
    using belgium_norway_flag by (auto simp: column_of_cell_at)
  have lens: "length ?flags = length (rows df) \<and> length ?groups = length (rows df)"
    by (simp add: length_column_of)
  have ok: "\<exists>log out.
           process_nationality_data L (Some df) start_year end_year = (log, Inr (Some out))
         \<and> get_series out ''euro_flag'' = Inr ?flags \<and> get_series out ''group'' = Inr ?groups"
    if sp: ?spaced
  proof -
    obtain out where o: "nationality_steps L df start_year end_year = Inr out"
        and f: "get_series out ''euro_flag'' = Inr ?flags"
        and g: "get_series out ''group'' = Inr ?groups"
      using nationality_steps_wf [OF wf nation d2 need sp, of start_year end_year] by blast
    have "process_nationality_data L (Some df) start_year end_year
           = ([''Cleaning nationality season data for '' @ season_label start_year end_year @ ''...'',
               ''Finished cleaning nationality data for '' @ season_label start_year end_year @ ''.''],
              Inr (Some out))"
      using ne o by (simp add: process_nationality_data_def Let_def)
    then show ?thesis using f g by blast
  qed
  have b: "?spaced \<longrightarrow>
          (\<exists>log out flags groups.
             process_nationality_data L (Some df) start_year end_year = (log, Inr (Some out))
           \<and> get_series out ''euro_flag'' = Inr flags \<and> get_series out ''group'' = Inr groups
           \<and> length flags = length (rows df) \<and> length groups = length (rows df)
           \<and> (\<forall>i < length (rows df).
                 clean_nation (py_str L (cell_at df (rows df ! i) ''Nation'')) = StrV ''Belgium''
                 \<or> clean_nation (py_str L (cell_at df (rows df ! i) ''Nation'')) = StrV ''Norway''
                 \<longrightarrow> flags ! i = NumV (PyInt 0) \<and> groups ! i = StrV ''Non-European''))"
    using ok lens rowwise by blast
  have sp_row: "?spaced"
    if i: "i < length (rows df)"
      and t: "clean_nation (py_str L (cell_at df (rows df ! i) ''Nation'')) = StrV ''Belgium''
              \<or> clean_nation (py_str L (cell_at df (rows df ! i) ''Nation'')) = StrV ''Norway''"
    for i
  proof -
    have "split_once '' '' (py_str L (cell_at df (rows df ! i) ''Nation'')) \<noteq> None"
      using t token_has_space by blast
    moreover have "cell_at df (rows df ! i) ''Nation'' \<in> set (column_of df ''Nation'')"
      using i by (auto simp: column_of_cell_at)
    ultimately show ?thesis by (auto simp: list_ex_iff)
  qed
  have a: "\<forall>i < length (rows df).
           clean_nation (py_str L (cell_at df (rows df ! i) ''Nation'')) = StrV ''Belgium''
           \<or> clean_nation (py_str L (cell_at df (rows df ! i) ''Nation'')) = StrV ''Norway''
           \<longrightarrow> (\<exists>log out flags groups.
                  process_nationality_data L (Some df) start_year end_year = (log, Inr (Some out))
                \<and> get_series out ''euro_flag'' = Inr flags \<and> get_series out ''group'' = Inr groups
                \<and> length flags = length (rows df) \<and> length groups = length (rows df)
                \<and> flags ! i = NumV (PyInt 0) \<and> groups ! i = StrV ''Non-European'')"
  proof (intro allI impI)
    fix i assume i: "i < length (rows df)"
      and t: "clean_nation (py_str L (cell_at df (rows df ! i) ''Nation'')) = StrV ''Belgium''
              \<or> clean_nation (py_str L (cell_at df (rows df ! i) ''Nation'')) = StrV ''Norway''"
    obtain log out where
      p: "process_nationality_data L (Some df) start_year end_year = (log, Inr (Some out))"
      and f: "get_series out ''euro_flag'' = Inr ?flags"
      and g: "get_series out ''group'' = Inr ?groups"
      using ok [OF sp_row [OF i t]] by blast
    have "?flags ! i = NumV (PyInt 0) \<and> ?groups ! i = StrV ''Non-European''"
      using rowwise i t by blast
    then show "\<exists>log out flags groups.
                  process_nationality_data L (Some df) start_year end_year = (log, Inr (Some out))
                \<and> get_series out ''euro_flag'' = Inr flags \<and> get_series out ''group'' = Inr groups
                \<and> length flags = length (rows df) \<and> length groups = length (rows df)
                \<and> flags ! i = NumV (PyInt 0) \<and> groups ! i = StrV ''Non-European''"
      using p f g lens by blast
  qed
  have c: "\<not> ?spaced \<longrightarrow>
          process_nationality_data L (Some df) start_year end_year
            = ([''Cleaning nationality season data for ''
                  @ season_label start_year end_year @ ''...''],
               Inl AttributeError)"
    using ne nationality_steps_no_space [OF wf nation rows, of L start_year end_year]
    by (simp add: process_nationality_data_def Let_def)
  have e: "''BelgiumNorway'' \<in> set EURO_COUNTRIES
     \<and> ''Belgium'' \<notin> set EURO_COUNTRIES \<and> ''Norway'' \<notin> set EURO_COUNTRIES"
    by (simp add: EURO_COUNTRIES_def)
  show ?thesis
    using e a b c by (simp only: simp_thms)
qed

theorem belgium_norway_not_european_witness:
  "\<exists>log out flags groups.
     process_nationality_data integer_lib
       (Some \<lparr>columns = [''Rk'', ''Nation'', ''# Players'', ''Min''],
              rows = [[NumV (PyInt 1), StrV ''eng England'', NumV (PyInt 120), StrV ''101,234''],
                      [NumV (PyInt 2), StrV ''be Belgium'', NumV (PyInt 5), StrV ''1,234''],
                      [NumV (PyInt 3), StrV ''no Norway'', NumV (PyInt 7), StrV ''2,000'']]\<rparr>)
       2020 2021 = (log, Inr (Some out))
     \<and> get_series out ''euro_flag'' = Inr flags \<and> get_series out ''group'' = Inr groups
     \<and> flags ! 1 = NumV (PyInt 0) \<and> groups ! 1 = StrV ''Non-European''
     \<and> flags ! 2 = NumV (PyInt 0) \<and> groups ! 2 = StrV ''Non-European''"
proof -
  let ?df = "\<lparr>columns = [''Rk'', ''Nation'', ''# Players'', ''Min''],
              rows = [[NumV (PyInt 1), StrV ''eng England'', NumV (PyInt 120), StrV ''101,234''],
                      [NumV (PyInt 2), StrV ''be Belgium'', NumV (PyInt 5), StrV ''1,234''],
                      [NumV (PyInt 3), StrV ''no Norway'', NumV (PyInt 7), StrV ''2,000'']]\<rparr>"
  have wf: "wf_table ?df" by (simp add: wf_table_def)
  have nation: "''Nation'' \<in> set (columns ?df)" by simp
  have d2: "distinct (map (rename_label NATIONALITY_COL_MAP) (columns ?df))"
    by (simp add: rename_label_def NATIONALITY_COL_MAP_def)
  have need: "set [''Rank'', ''Num_Players'', ''Minutes_Played'']
                   \<subseteq> set (map (rename_label NATIONALITY_COL_MAP) (columns ?df))"
    by (simp add: rename_label_def NATIONALITY_COL_MAP_def)
  have rows: "rows ?df \<noteq> []" by simp
  have sp: "list_ex (\<lambda>v. split_once '' '' (py_str integer_lib v) \<noteq> None) (column_of ?df ''Nation'')"
    by (simp add: column_of_def startswith_def)
  obtain log out flags groups where
    p: "process_nationality_data integer_lib (Some ?df) 2020 2021 = (log, Inr (Some out))"
    and f: "get_series out ''euro_flag'' = Inr flags" and g: "get_series out ''group'' = Inr groups"
    and r: "\<forall>i < length (rows ?df).
               clean_nation (py_str integer_lib (cell_at ?df (rows ?df ! i) ''Nation'')) = StrV ''Belgium''
               \<or> clean_nation (py_str integer_lib (cell_at ?df (rows ?df ! i) ''Nation'')) = StrV ''Norway''
               \<longrightarrow> flags ! i = NumV (PyInt 0) \<and> groups ! i = StrV ''Non-European''"
    using belgium_norway_not_european [OF wf nation d2 need rows, of integer_lib 2020 2021] sp
    by blast
  have b: "clean_nation (py_str integer_lib (cell_at ?df (rows ?df ! 1) ''Nation'')) = StrV ''Belgium''"
    by (simp add: cell_at_def clean_nation_def startswith_def)
  have n: "clean_nation (py_str integer_lib (cell_at ?df (rows ?df ! 2) ''Nation'')) = StrV ''Norway''"
    by (simp add: cell_at_def clean_nation_def startswith_def)
  have "flags ! 1 = NumV (PyInt 0) \<and> groups ! 1 = StrV ''Non-European''"
    using r b by (simp del: One_nat_def)
  moreover have "flags ! 2 = NumV (PyInt 0) \<and> groups ! 2 = StrV ''Non-European''"
    using r n by simp
  ultimately show ?thesis using p f g by blast
qed


section \<open>Median-growth extrapolation\<close>















section \<open>Clubs with fewer than two rows\<close>

text \<open>
  Claim C2 does not hold of the code.  For a club whose dummy column has no row with
  value 1, \<open>cdf['Capacity'].iloc[-1]\<close> is evaluated on an empty column and raises
  \<open>IndexError\<close>, where the claim promises a row with a null capacity and no error.  For
  a club with one row, the feature columns are set to NaN after the dummy columns and
  \<open>Capacity\<close>, so that a dummy column or \<open>Capacity\<close> that is also a feature ends as NaN.
\<close>

theorem sparse_club_loses_capacity_and_dummies:
  "future_rows
     \<lparr>columns = [''Season'', ''Club_Arsenal'', ''Club_Chelsea'', ''Capacity'', ''Attendance''],
      rows = [[NumV (PyInt 2021), NumV (PyInt 0), NumV (PyInt 1), NumV (PyInt 5000), NumV (PyInt 1000)],
              [NumV (PyInt 2022), NumV (PyInt 0), NumV (PyInt 1), NumV (PyInt 5000), NumV (PyInt 1100)]]\<rparr>
     [''Capacity''] ''Attendance'' 1 = Inl IndexError
   \<and> map_sum id (map (\<lambda>r. map r [''Club'', ''Club_Arsenal'', ''Club_Chelsea'', ''Capacity'']))
       (club_future_rows
          \<lparr>columns = [''Season'', ''Club_Arsenal'', ''Club_Chelsea'', ''Capacity'', ''Attendance''],
           rows = [[NumV (PyInt 2021), NumV (PyInt 0), NumV (PyInt 1), NumV (PyInt 5000), NumV (PyInt 1000)],
                   [NumV (PyInt 2022), NumV (PyInt 0), NumV (PyInt 1), NumV (PyInt 5000), NumV (PyInt 1100)],
                   [NumV (PyInt 2022), NumV (PyInt 1), NumV (PyInt 0), NumV (PyInt 3000), NumV (PyInt 800)]]\<rparr>
          [''Club_Arsenal'', ''Club_Chelsea''] [''Capacity'', ''Club_Arsenal'', ''Club_Chelsea'']
          ''Attendance'' [2023] ''Arsenal'')
     = Inr [[Some (StrV ''Arsenal''), Some nan, Some nan, Some nan]]"
  by (simp add: future_rows_def last_year_of_def get_series_def col_positions_def
      club_cols_of_def startswith_def future_years_list_def club_future_rows_def
      club_history_def select_rows_def cell_is_one_def the_season_def sparse_rows_def
      last_capacity_def sparse_row_def dummy_updates_def)

end
